theory Spec2Isabelle
  imports Main "HOL-Library.Word" "HOL-Library.AList"
begin

section \<open>Common data\<close>

text \<open>
  A \<open>Buffer\<close> is a list of bytes. Thrown errors are values: \<open>NotFoundError\<close> is the
  distinguished error of the key-value store, \<open>Error msg\<close> is \<open>new Error(msg)\<close> with a
  constant message, and the remaining constructors are the errors whose message
  interpolates values (the values are kept as arguments instead of being rendered).
\<close>

type_synonym bytes = "8 word list"

datatype error =
    NotFoundError
  | Error string
  | InsufficientBalance bytes int int
  | MinBalanceNotSet "bytes \<times> bytes"
  | MinBalanceNotSatisfied int
  | LocalIDNotInitialized bytes
  | SupplyExceedsMaxUInt64
  | NoBalanceLocked nat
  | NotEnoughLocked nat int

section \<open>Certificate signatures (consensus/certificate_generation/utils.ts)\<close>

record Certificate =
  cert_blockID :: bytes
  cert_height :: nat
  cert_timestamp :: nat
  cert_stateRoot :: bytes
  cert_validatorsHash :: bytes
  aggregationBits :: "bytes option"
  cert_signature :: "bytes option"

definition verifySingleCertificateSignature ::
    "bytes \<Rightarrow> bytes \<Rightarrow> bytes \<Rightarrow> Certificate \<Rightarrow> bool" where
  "verifySingleCertificateSignature pk sig networkIdentifier certificate = True"

text \<open>
  \<open>verifyAggregateCertificateSignature\<close> is the sibling that does check: it refuses a
  certificate without aggregation bits or signature and otherwise asks the BLS
  primitive \<open>verifyWeightedAggSig\<close> (an external capability, here the parameter
  \<open>verifyWeightedAggSig\<close>) about the encoded certificate.
\<close>

definition verifyAggregateCertificateSignature ::
    "(bytes list \<Rightarrow> bytes \<Rightarrow> bytes \<Rightarrow> bytes \<Rightarrow> Certificate \<Rightarrow> nat list \<Rightarrow> nat \<Rightarrow> bool) \<Rightarrow>
     bytes list \<Rightarrow> nat list \<Rightarrow> nat \<Rightarrow> bytes \<Rightarrow> Certificate \<Rightarrow> bool" where
  "verifyAggregateCertificateSignature verifyWeightedAggSig keysList weights threshold
       networkIdentifier certificate =
     (case (aggregationBits certificate, cert_signature certificate) of
        (Some bits, Some sig) \<Rightarrow>
          verifyWeightedAggSig keysList bits sig networkIdentifier
            (certificate\<lparr>aggregationBits := None, cert_signature := None\<rparr>) weights threshold
      | _ \<Rightarrow> False)"

section \<open>The key-value store\<close>

text \<open>
  Modelled from the spec: the store classes (\<open>getWithSchema\<close>, \<open>setWithSchema\<close>,
  \<open>has\<close>, \<open>iterate\<close> of a sub-store and \<open>get\<close>, \<open>has\<close>, \<open>set\<close> of a
  \<open>BaseStore\<close>) are not among the sources. The spec gives their contract:
  \<open>get(key) -> value | NotFound\<close>, \<open>set(key, value)\<close>, \<open>has(key) -> bool\<close>, and
  \<open>NotFoundError\<close> is the distinguished error a reader of optional state must handle.
  A store is an association list; a lookup reads the first entry of a key and a write
  replaces it (or adds the entry).
\<close>

type_synonym ('k, 'v) store = "('k \<times> 'v) list"

definition getWithSchema :: "('k, 'v) store \<Rightarrow> 'k \<Rightarrow> error + 'v" where
  "getWithSchema s k = (case map_of s k of None \<Rightarrow> Inl NotFoundError | Some v \<Rightarrow> Inr v)"

definition setWithSchema :: "('k, 'v) store \<Rightarrow> 'k \<Rightarrow> 'v \<Rightarrow> ('k, 'v) store" where
  "setWithSchema s k v = AList.update k v s"

definition has :: "('k, 'v) store \<Rightarrow> 'k \<Rightarrow> bool" where
  "has s k = (map_of s k \<noteq> None)"

section \<open>Token module: the class TokenAPI (second file of modules/token/types.ts)\<close>

text \<open>
  A token identifier is a chain identifier followed by a local identifier;
  \<open>splitTokenID\<close> (utils, not among the sources) cuts it into the two, so the identifier
  is kept as the pair and \<open>splitTokenID\<close> is the identity. \<open>getUserStoreKey\<close> concatenates
  an address and a token identifier, both of fixed length; the key is kept as the pair.
\<close>

type_synonym TokenID = "bytes \<times> bytes"

definition splitTokenID :: "TokenID \<Rightarrow> bytes \<times> bytes" where
  "splitTokenID tokenID = tokenID"

definition getUserStoreKey :: "bytes \<Rightarrow> TokenID \<Rightarrow> bytes \<times> TokenID" where
  "getUserStoreKey address tokenID = (address, tokenID)"

record LockedBalance =
  lb_moduleID :: nat
  lb_amount :: int

record UserStoreData =
  availableBalance :: int
  lockedBalances :: "LockedBalance list"

record SupplyStoreData =
  totalSupply :: int

record EscrowStoreData =
  escrowAmount :: int

record MinBalance =
  mb_tokenID :: TokenID
  mb_amount :: int

text \<open>
  The fields of a \<open>TokenAPI\<close> instance: \<open>_minBalances\<close> (set by \<open>init\<close>), the identifier
  that \<open>_interoperabilityAPI.getOwnChainAccount\<close> answers, and the constant
  \<open>CHAIN_ID_ALIAS_NATIVE\<close> of \<open>./constants\<close> (not among the sources, hence a parameter).
\<close>

record TokenAPI =
  minBalances :: "MinBalance list"
  ownChainID :: bytes
  CHAIN_ID_ALIAS_NATIVE :: bytes

text \<open>The sub-stores of the token module that the API reads and writes.\<close>

record TokenState =
  userStore :: "(bytes \<times> TokenID, UserStoreData) store"
  supplyStore :: "(bytes, SupplyStoreData) store"
  escrowStore :: "(bytes \<times> bytes, EscrowStoreData) store"


definition getNativeTokenID :: "TokenAPI \<Rightarrow> TokenID \<Rightarrow> TokenID" where
  "getNativeTokenID api tokenID = (CHAIN_ID_ALIAS_NATIVE api, snd tokenID)"

definition getCanonicalTokenID :: "TokenAPI \<Rightarrow> TokenID \<Rightarrow> TokenID" where
  "getCanonicalTokenID api tokenID =
     (let chainID = fst (splitTokenID tokenID) in
      if chainID = CHAIN_ID_ALIAS_NATIVE api then tokenID
      else if chainID = ownChainID api then getNativeTokenID api tokenID
      else tokenID)"

definition isNative :: "TokenAPI \<Rightarrow> TokenID \<Rightarrow> bool" where
  "isNative api tokenID =
     (let canonicalTokenID = getCanonicalTokenID api tokenID;
          chainID = fst (splitTokenID canonicalTokenID)
      in chainID = CHAIN_ID_ALIAS_NATIVE api)"

definition getMinBalance :: "TokenAPI \<Rightarrow> TokenID \<Rightarrow> int option" where
  "getMinBalance api tokenID =
     map_option mb_amount (find (\<lambda>mb. mb_tokenID mb = tokenID) (minBalances api))"

text \<open>
  \<open>_accountExist\<close> iterates the user sub-store from \<open>address ++ 00..00\<close> to
  \<open>address ++ ff..ff\<close>, that is over the entries of the address for every token, and
  answers whether there is one.
\<close>

definition accountExist :: "(bytes \<times> TokenID, UserStoreData) store \<Rightarrow> bytes \<Rightarrow> bool" where
  "accountExist users address =
     (let allUserData = filter (\<lambda>(key, _). fst key = address) users
      in length allUserData \<noteq> 0)"


text \<open>
  The recipient as \<open>mint\<close> and \<open>transfer\<close> read it: the stored entry, or an empty one
  when the read throws \<open>NotFoundError\<close>; any other error is thrown on.
\<close>

definition getRecipient ::
    "(bytes \<times> TokenID, UserStoreData) store \<Rightarrow> bytes \<times> TokenID \<Rightarrow> error + UserStoreData" where
  "getRecipient users key =
     (case getWithSchema users key of
        Inr recipient \<Rightarrow> Inr recipient
      | Inl e \<Rightarrow>
          if e \<noteq> NotFoundError then Inl e
          else Inr \<lparr>availableBalance = 0, lockedBalances = []\<rparr>)"

definition creditRecipient ::
    "bytes \<times> TokenID \<Rightarrow> int \<Rightarrow> TokenState \<Rightarrow> (error + unit) \<times> TokenState" where
  "creditRecipient key receivedAmount st =
     (case getRecipient (userStore st) key of
        Inl e \<Rightarrow> (Inl e, st)
      | Inr recipient \<Rightarrow>
          (Inr (),
           st\<lparr>userStore := setWithSchema (userStore st) key
                 (recipient\<lparr>availableBalance := availableBalance recipient + receivedAmount\<rparr>)\<rparr>))"



text \<open>
  \<open>transfer\<close>: the sender is read, checked and debited first; then the recipient's
  existence is looked up (after the sender's write), the min balance of a new
  recipient is deducted and, for a native token, taken off the total supply; last the
  recipient is credited. A throw leaves the writes made before it in the store, so the
  store is returned with the error.
\<close>

definition transfer ::
    "TokenAPI \<Rightarrow> bytes \<Rightarrow> bytes \<Rightarrow> TokenID \<Rightarrow> int \<Rightarrow> TokenState \<Rightarrow>
     (error + unit) \<times> TokenState" where
  "transfer api senderAddress recipientAddress tokenID amount st =
     (let canonicalTokenID = getCanonicalTokenID api tokenID in
      case getWithSchema (userStore st) (getUserStoreKey senderAddress canonicalTokenID) of
        Inl e \<Rightarrow> (Inl e, st)
      | Inr sender \<Rightarrow>
          if availableBalance sender < amount then
            (Inl (InsufficientBalance senderAddress (availableBalance sender) amount), st)
          else
            let st1 = st\<lparr>userStore := setWithSchema (userStore st)
                          (getUserStoreKey senderAddress canonicalTokenID)
                          (sender\<lparr>availableBalance := availableBalance sender - amount\<rparr>)\<rparr>;
                recipientExist = accountExist (userStore st1) recipientAddress;
                minBalance = getMinBalance api canonicalTokenID
            in
            if \<not> recipientExist then
              (case minBalance of
                 None \<Rightarrow> (Inl (MinBalanceNotSet canonicalTokenID), st1)
               | Some mb \<Rightarrow>
                   if mb = 0 then (Inl (MinBalanceNotSet canonicalTokenID), st1)
                   else if mb > amount then (Inl (MinBalanceNotSatisfied amount), st1)
                   else
                     let receivedAmount = amount - mb;
                         chainID = fst (splitTokenID canonicalTokenID)
                     in
                     if chainID = CHAIN_ID_ALIAS_NATIVE api then
                       let localID = snd (splitTokenID canonicalTokenID) in
                       (case getWithSchema (supplyStore st1) localID of
                         Inl e \<Rightarrow> (Inl e, st1)
                       | Inr supply \<Rightarrow>
                           creditRecipient (getUserStoreKey recipientAddress canonicalTokenID)
                             receivedAmount
                             (st1\<lparr>supplyStore := setWithSchema (supplyStore st1) localID
                                    (supply\<lparr>totalSupply := totalSupply supply - mb\<rparr>)\<rparr>))
                     else
                       creditRecipient (getUserStoreKey recipientAddress canonicalTokenID)
                         receivedAmount st1)
            else
              creditRecipient (getUserStoreKey recipientAddress canonicalTokenID) amount st1)"




subsection \<open>The balance total of a token\<close>

text \<open>
  A user's balance of a token is the available balance and the locked balances
  together. The total of a token is the sum of the user balances stored for it and, for
  a native token, of the escrow balances stored for its local id.
\<close>

definition userBalance :: "UserStoreData \<Rightarrow> int" where
  "userBalance u = availableBalance u + sum_list (map lb_amount (lockedBalances u))"

definition sumUserBalances :: "TokenState \<Rightarrow> TokenID \<Rightarrow> int" where
  "sumUserBalances st tokenID =
     sum_list (map (\<lambda>(key, u). if snd key = tokenID then userBalance u else 0) (userStore st))"

definition sumEscrow :: "TokenState \<Rightarrow> bytes \<Rightarrow> int" where
  "sumEscrow st localID =
     sum_list (map (\<lambda>(key, e). if snd key = localID then escrowAmount e else 0)
       (escrowStore st))"

definition totalBalance :: "TokenAPI \<Rightarrow> TokenState \<Rightarrow> TokenID \<Rightarrow> int" where
  "totalBalance api st tokenID =
     sumUserBalances st tokenID +
     (if fst tokenID = CHAIN_ID_ALIAS_NATIVE api then sumEscrow st (snd tokenID) else 0)"

subsection \<open>Example inputs of the token module\<close>

text \<open>
  A chain whose native alias is \<open>00000000\<close> and whose min balance for the native token
  \<open>ex_T\<close> is 5. In \<open>ex_state\<close> address \<open>[1]\<close> holds 100 of \<open>ex_T\<close> and nobody else
  holds anything; in \<open>ex_state2\<close> address \<open>[2]\<close> holds 1 of another token \<open>ex_T2\<close>;
  in \<open>ex_state3\<close> address \<open>[1]\<close> also has 40 of \<open>ex_T\<close> locked for module 5.
\<close>

definition ex_T :: TokenID where
  "ex_T = ([0, 0, 0, 0], [0, 0, 0, 1])"

definition ex_T2 :: TokenID where
  "ex_T2 = ([0, 0, 0, 0], [0, 0, 0, 2])"

definition ex_api :: TokenAPI where
  "ex_api = \<lparr>minBalances = [\<lparr>mb_tokenID = ex_T, mb_amount = 5\<rparr>],
             ownChainID = [0, 0, 0, 7], CHAIN_ID_ALIAS_NATIVE = [0, 0, 0, 0]\<rparr>"

definition ex_state :: TokenState where
  "ex_state =
     \<lparr>userStore = [(([1], ex_T), \<lparr>availableBalance = 100, lockedBalances = []\<rparr>)],
      supplyStore = [([0, 0, 0, 1], \<lparr>totalSupply = 1000\<rparr>)],
      escrowStore = []\<rparr>"

definition ex_state2 :: TokenState where
  "ex_state2 =
     \<lparr>userStore = [(([1], ex_T), \<lparr>availableBalance = 100, lockedBalances = []\<rparr>),
                   (([2], ex_T2), \<lparr>availableBalance = 1, lockedBalances = []\<rparr>)],
      supplyStore = [([0, 0, 0, 1], \<lparr>totalSupply = 1000\<rparr>)],
      escrowStore = []\<rparr>"


section \<open>Block processor: the class Processor (unnamed/part_005)\<close>

text \<open>
  A block as the processor reads it: \<open>id\<close>, \<open>height\<close>, \<open>version\<close>, the generator's key
  and the previous block's id. The serialised form of a block is a string.
\<close>

record BlockInstance =
  blockId :: string
  height :: nat
  version :: nat
  generatorPublicKey :: string
  previousBlockId :: string

type_synonym BlockJSON = string

text \<open>
  \<open>ForkStatus\<close> is an enum of \<open>@liskhq/lisk-bft\<close>; at run time a fork status is a number,
  and \<open>forkStatus.run\<close> may answer a number that is none of the six members, which is
  \<open>UNKNOWN_STATUS n\<close> here.
\<close>

datatype ForkStatus =
    IDENTICAL_BLOCK
  | VALID_BLOCK
  | DOUBLE_FORGING
  | TIE_BREAK
  | DIFFERENT_CHAIN
  | DISCARD
  | UNKNOWN_STATUS int

definition forkStatusList :: "ForkStatus list" where
  "forkStatusList =
     [IDENTICAL_BLOCK, VALID_BLOCK, DOUBLE_FORGING, TIE_BREAK, DIFFERENT_CHAIN, DISCARD]"

text \<open>
  Modelled from the spec: the chain module (\<open>Chain\<close> of \<open>@liskhq/lisk-chain\<close>:
  \<open>lastBlock\<close>, \<open>newStateStore\<close>, \<open>exists\<close>, \<open>save\<close>, \<open>remove\<close>) is not among the sources.
  The spec: a chain has exactly one tip (the last-applied block) at any time; on
  success the overlay is committed and the tip advances; deleting the tip leaves the
  chain one block below; a store overlay is opened on the latest committed state (or,
  for a deletion, one block below the tip); an I/O failure of the store is fatal and
  propagates, the tip staying at its last good state. The chain is its tip and the
  blocks in storage, newest first; a state store is the part of the chain it was
  opened on. Whether storage fails is not decided by the chain's data, so the failure
  of a \<open>save\<close> or \<open>remove\<close> is a parameter of these two operations. A \<open>remove\<close>
  also fails when the block is not the tip or when no block is below it.
\<close>

record Chain =
  lastBlock :: BlockInstance
  persisted :: "BlockInstance list"

type_synonym StateStore = "BlockInstance list"

definition newStateStore :: "Chain \<Rightarrow> nat \<Rightarrow> StateStore" where
  "newStateStore chainModule offset = drop offset (persisted chainModule)"

definition chainExists :: "Chain \<Rightarrow> BlockInstance \<Rightarrow> bool" where
  "chainExists chainModule block =
     (blockId block \<in> set (map blockId (persisted chainModule)))"

definition chainSave ::
    "error option \<Rightarrow> BlockInstance \<Rightarrow> StateStore \<Rightarrow> bool \<Rightarrow> bool \<Rightarrow> Chain \<Rightarrow> error + Chain" where
  "chainSave ioError block stateStore saveOnlyState removeFromTempTable chainModule =
     (case ioError of
        Some e \<Rightarrow> Inl e
      | None \<Rightarrow>
          Inr \<lparr>lastBlock = block,
               persisted = (if saveOnlyState then persisted chainModule
                            else block # persisted chainModule)\<rparr>)"

definition chainRemove ::
    "error option \<Rightarrow> BlockInstance \<Rightarrow> StateStore \<Rightarrow> bool \<Rightarrow> Chain \<Rightarrow> error + Chain" where
  "chainRemove ioError block stateStore saveTempBlock chainModule =
     (case ioError of
        Some e \<Rightarrow> Inl e
      | None \<Rightarrow>
          (case persisted chainModule of
             tip # below # rest \<Rightarrow>
               if blockId tip = blockId block
               then Inr \<lparr>lastBlock = below, persisted = below # rest\<rparr>
               else Inl (Error ''Block is not the tip of the chain'')
           | _ \<Rightarrow> Inl (Error ''Cannot delete genesis block'')))"

text \<open>
  A \<open>BaseBlockProcessor\<close> (not among the sources) is a set of pipelines, each run with
  \<open>.run(...)\<close> and awaited. The pipelines that check or change state may throw
  (\<open>Some e\<close>, \<open>Inl e\<close>); \<open>serialize\<close> is a conversion.
\<close>

record BaseBlockProcessor =
  forkStatus_run :: "BlockInstance \<Rightarrow> BlockInstance \<Rightarrow> error + ForkStatus"
  validate_run :: "BlockInstance \<Rightarrow> BlockInstance \<Rightarrow> StateStore \<Rightarrow> error option"
  verify_run :: "BlockInstance \<Rightarrow> BlockInstance \<Rightarrow> bool \<Rightarrow> StateStore \<Rightarrow> error option"
  apply_run :: "BlockInstance \<Rightarrow> BlockInstance \<Rightarrow> bool \<Rightarrow> StateStore \<Rightarrow> error option"
  undo_run :: "BlockInstance \<Rightarrow> StateStore \<Rightarrow> error option"
  applyGenesis_run :: "BlockInstance \<Rightarrow> StateStore \<Rightarrow> error option"
  serialize_run :: "BlockInstance \<Rightarrow> BlockJSON"

text \<open>
  The processor's fields. \<open>processors\<close> and \<open>matchers\<close> are both keyed by the version
  and both written by \<open>register\<close>, so they are one list of (version, processor,
  matcher), kept in the order in which \<open>_getBlockProcessor\<close> walks the sorted matcher
  versions. \<open>saveError\<close> and \<open>removeError\<close> say whether storage fails for a block on a
  chain. The logger has no effect on the state and is left out; \<open>sequence.add\<close> runs
  one job at a time, which a function does anyway.
\<close>

record Processor =
  registered :: "(nat \<times> BaseBlockProcessor \<times> (BlockInstance \<Rightarrow> bool)) list"
  saveError :: "Chain \<Rightarrow> BlockInstance \<Rightarrow> error option"
  removeError :: "Chain \<Rightarrow> BlockInstance \<Rightarrow> error option"

text \<open>
  What a run leaves behind besides the chain: the notifications published on the
  channel and the pipeline and chain calls made, in order.
\<close>

datatype effect =
    Published string BlockJSON "string option"
  | RunValidate BlockInstance
  | RunVerify BlockInstance BlockInstance
  | RunApply BlockInstance BlockInstance
  | RunUndo BlockInstance
  | RunApplyGenesis BlockInstance
  | ChainSave BlockInstance bool
  | ChainRemove BlockInstance

record ProcessorState =
  chainModule :: Chain
  trace :: "effect list"

definition emit :: "effect \<Rightarrow> ProcessorState \<Rightarrow> ProcessorState" where
  "emit e st = st\<lparr>trace := trace st @ [e]\<rparr>"

definition getBlockProcessor' :: "Processor \<Rightarrow> BlockInstance \<Rightarrow> error + BaseBlockProcessor" where
  "getBlockProcessor' p block =
     (if version block \<notin> set (map fst (registered p)) then
        Inl (Error ''Block processing version is not registered'')
      else
        (case find (\<lambda>(matcherVersion, processor, matcher). matcher block) (registered p) of
           Some (matcherVersion, processor, matcher) \<Rightarrow> Inr processor
         | None \<Rightarrow> Inl (Error ''No matching block processor found'')))"

definition serialize :: "Processor \<Rightarrow> BlockInstance \<Rightarrow> error + BlockJSON" where
  "serialize p blockInstance =
     (case getBlockProcessor' p blockInstance of
        Inl e \<Rightarrow> Inl e
      | Inr blockProcessor \<Rightarrow> Inr (serialize_run blockProcessor blockInstance))"

definition processValidated' ::
    "Processor \<Rightarrow> BlockInstance \<Rightarrow> BlockInstance \<Rightarrow> BaseBlockProcessor \<Rightarrow> bool \<Rightarrow> bool \<Rightarrow> bool \<Rightarrow>
     ProcessorState \<Rightarrow> (error + BlockInstance) \<times> ProcessorState" where
  "processValidated' p block lastBlk processor saveOnlyState skipBroadcast
       removeFromTempTable st =
     (let stateStore = newStateStore (chainModule st) 0;
          st1 = emit (RunVerify block lastBlk) st
      in
      case verify_run processor block lastBlk saveOnlyState stateStore of
        Some e \<Rightarrow> (Inl e, st1)
      | None \<Rightarrow>
          (case serialize p block of
             Inl e \<Rightarrow> (Inl e, st1)
           | Inr blockJSON \<Rightarrow>
               let st2 = (if \<not> skipBroadcast
                          then emit (Published ''app:block:broadcast'' blockJSON None) st1
                          else st1);
                   st3 = emit (RunApply block lastBlk) st2
               in
               (case apply_run processor block lastBlk saveOnlyState stateStore of
                  Some e \<Rightarrow> (Inl e, st3)
                | None \<Rightarrow>
                    let st4 = emit (ChainSave block saveOnlyState) st3 in
                    (case chainSave (saveError p (chainModule st) block) block stateStore
                            saveOnlyState removeFromTempTable (chainModule st) of
                       Inl e \<Rightarrow> (Inl e, st4)
                     | Inr chain' \<Rightarrow> (Inr block, st4\<lparr>chainModule := chain'\<rparr>)))))"

definition processGenesis' ::
    "Processor \<Rightarrow> BlockInstance \<Rightarrow> BaseBlockProcessor \<Rightarrow> bool \<Rightarrow> ProcessorState \<Rightarrow>
     (error + BlockInstance) \<times> ProcessorState" where
  "processGenesis' p block processor saveOnlyState st =
     (let stateStore = newStateStore (chainModule st) 0;
          isPersisted = chainExists (chainModule st) block
      in
      if saveOnlyState \<and> \<not> isPersisted then
        (Inl (Error ''Genesis block is not persisted but skipping to save''), st)
      else if isPersisted \<and> \<not> saveOnlyState then (Inr block, st)
      else
        let st1 = emit (RunApplyGenesis block) st in
        (case applyGenesis_run processor block stateStore of
           Some e \<Rightarrow> (Inl e, st1)
         | None \<Rightarrow>
             let st2 = emit (ChainSave block saveOnlyState) st1 in
             (case chainSave (saveError p (chainModule st) block) block stateStore
                     saveOnlyState False (chainModule st) of
                Inl e \<Rightarrow> (Inl e, st2)
              | Inr chain' \<Rightarrow> (Inr block, st2\<lparr>chainModule := chain'\<rparr>))))"

definition applyGenesisBlock ::
    "Processor \<Rightarrow> BlockInstance \<Rightarrow> ProcessorState \<Rightarrow> (error + BlockInstance) \<times> ProcessorState" where
  "applyGenesisBlock p block st =
     (case getBlockProcessor' p block of
        Inl e \<Rightarrow> (Inl e, st)
      | Inr blockProcessor \<Rightarrow> processGenesis' p block blockProcessor True st)"

definition deleteBlock' ::
    "Processor \<Rightarrow> BlockInstance \<Rightarrow> BaseBlockProcessor \<Rightarrow> bool \<Rightarrow> ProcessorState \<Rightarrow>
     (error + unit) \<times> ProcessorState" where
  "deleteBlock' p block processor saveTempBlock st =
     (let stateStore = newStateStore (chainModule st) 1;
          st1 = emit (RunUndo block) st
      in
      case undo_run processor block stateStore of
        Some e \<Rightarrow> (Inl e, st1)
      | None \<Rightarrow>
          let st2 = emit (ChainRemove block) st1 in
          (case chainRemove (removeError p (chainModule st) block) block stateStore
                  saveTempBlock (chainModule st) of
             Inl e \<Rightarrow> (Inl e, st2)
           | Inr chain' \<Rightarrow> (Inr (), st2\<lparr>chainModule := chain'\<rparr>)))"

text \<open>
  \<open>process\<close>: the standard processing of a block received from the network. The
  result of the \<open>TIE_BREAK\<close> branch is that of the \<open>try\<close> when applying the candidate
  succeeds and that of the \<open>catch\<close> (re-applying the previous tip) otherwise; the
  candidate's error is only logged.
\<close>

definition process ::
    "Processor \<Rightarrow> BlockInstance \<Rightarrow> string option \<Rightarrow> ProcessorState \<Rightarrow>
     (error + unit) \<times> ProcessorState" where
  "process p block peerId st =
     (case getBlockProcessor' p block of
        Inl e \<Rightarrow> (Inl e, st)
      | Inr blockProcessor \<Rightarrow>
          let lastBlk = lastBlock (chainModule st);
              stateStore = newStateStore (chainModule st) 0
          in
          (case forkStatus_run blockProcessor block lastBlk of
             Inl e \<Rightarrow> (Inl e, st)
           | Inr forkStatus \<Rightarrow>
               if forkStatus \<notin> set forkStatusList then
                 (Inl (Error ''Unknown fork status''), st)
               else if forkStatus = DISCARD then
                 (case serialize p block of
                    Inl e \<Rightarrow> (Inl e, st)
                  | Inr blockJSON \<Rightarrow>
                      (Inr (), emit (Published ''app:chain:fork'' blockJSON None) st))
               else if forkStatus = IDENTICAL_BLOCK then (Inr (), st)
               else if forkStatus = DOUBLE_FORGING then
                 (case serialize p block of
                    Inl e \<Rightarrow> (Inl e, st)
                  | Inr blockJSON \<Rightarrow>
                      (Inr (), emit (Published ''app:chain:fork'' blockJSON None) st))
               else if forkStatus = DIFFERENT_CHAIN then
                 (case serialize p block of
                    Inl e \<Rightarrow> (Inl e, st)
                  | Inr blockJSON \<Rightarrow>
                      (Inr (),
                       emit (Published ''app:chain:fork'' blockJSON None)
                         (emit (Published ''app:chain:sync'' blockJSON peerId) st)))
               else if forkStatus = TIE_BREAK then
                 (case serialize p block of
                    Inl e \<Rightarrow> (Inl e, st)
                  | Inr blockJSON \<Rightarrow>
                      let st1 = emit (Published ''app:chain:fork'' blockJSON None) st;
                          st2 = emit (RunValidate block) st1
                      in
                      (case validate_run blockProcessor block lastBlk stateStore of
                         Some e \<Rightarrow> (Inl e, st2)
                       | None \<Rightarrow>
                           let previousLastBlock = lastBlk in
                           (case deleteBlock' p lastBlk blockProcessor False st2 of
                              (Inl e, st3) \<Rightarrow> (Inl e, st3)
                            | (Inr _, st3) \<Rightarrow>
                                let newLastBlock = lastBlock (chainModule st3) in
                                (case processValidated' p block newLastBlock blockProcessor
                                        False False False st3 of
                                   (Inr _, st4) \<Rightarrow> (Inr (), st4)
                                 | (Inl err, st4) \<Rightarrow>
                                     (case processValidated' p previousLastBlock newLastBlock
                                             blockProcessor False True False st4 of
                                        (Inl e, st5) \<Rightarrow> (Inl e, st5)
                                      | (Inr _, st5) \<Rightarrow> (Inr (), st5))))))
               else
                 let st1 = emit (RunValidate block) st in
                 (case validate_run blockProcessor block lastBlk stateStore of
                    Some e \<Rightarrow> (Inl e, st1)
                  | None \<Rightarrow>
                      (case processValidated' p block lastBlk blockProcessor
                              False False False st1 of
                         (Inl e, st2) \<Rightarrow> (Inl e, st2)
                       | (Inr _, st2) \<Rightarrow> (Inr (), st2)))))"

text \<open>The effects a run added to the trace.\<close>

definition newEffects :: "ProcessorState \<Rightarrow> ProcessorState \<Rightarrow> effect list" where
  "newEffects st st' = drop (length (trace st)) (trace st')"

subsection \<open>Example inputs of the block processor\<close>

text \<open>
  One registered block processor (version 1, matching every block) whose fork status
  is fixed by the parameter; its validation rejects the block with id \<open>X\<close>, its apply
  pipeline fails for the block with id \<open>F\<close>, everything else succeeds and storage
  never fails. The chain of \<open>ex_pstate\<close> is the genesis block \<open>G\<close> with the tip \<open>T\<close>
  on it; \<open>ex_pstate_empty\<close> has nothing in storage.
\<close>

definition ex_processor :: "ForkStatus \<Rightarrow> BaseBlockProcessor" where
  "ex_processor fs =
     \<lparr>forkStatus_run = (\<lambda>block lastBlk. Inr fs),
      validate_run = (\<lambda>block lastBlk stateStore.
         if blockId block = ''X'' then Some (Error ''Invalid block'') else None),
      verify_run = (\<lambda>block lastBlk skipExistingCheck stateStore. None),
      apply_run = (\<lambda>block lastBlk skipExistingCheck stateStore.
         if blockId block = ''F'' then Some (Error ''Apply failed'') else None),
      undo_run = (\<lambda>block stateStore. None),
      applyGenesis_run = (\<lambda>block stateStore. None),
      serialize_run = blockId\<rparr>"

definition ex_p :: "ForkStatus \<Rightarrow> Processor" where
  "ex_p fs = \<lparr>registered = [(1, ex_processor fs, \<lambda>block. True)],
             saveError = (\<lambda>chain block. None), removeError = (\<lambda>chain block. None)\<rparr>"

definition ex_block :: "string \<Rightarrow> nat \<Rightarrow> string \<Rightarrow> string \<Rightarrow> BlockInstance" where
  "ex_block i h g prev = \<lparr>blockId = i, height = h, version = 1, generatorPublicKey = g, previousBlockId = prev\<rparr>"

definition ex_genesis :: BlockInstance where
  "ex_genesis = ex_block ''G'' 1 ''g0'' ''''"

definition ex_tip :: BlockInstance where
  "ex_tip = ex_block ''T'' 2 ''g1'' ''G''"

definition ex_pstate :: ProcessorState where
  "ex_pstate = \<lparr>chainModule = \<lparr>lastBlock = ex_tip, persisted = [ex_tip, ex_genesis]\<rparr>, trace = []\<rparr>"

definition ex_candidate :: "string \<Rightarrow> BlockInstance" where
  "ex_candidate i = ex_block i 2 ''g2'' ''G''"

definition ex_pstate_empty :: ProcessorState where
  "ex_pstate_empty = \<lparr>chainModule = \<lparr>lastBlock = ex_genesis, persisted = []\<rparr>, trace = []\<rparr>"

text \<open>
  A second registered block processor (version 1, matching every block, every block
  classified \<open>TIE_BREAK\<close>) whose apply pipeline fails for every block, with an error
  that names the block, and whose undo pipeline fails when the parameter says so.
\<close>

definition ex_processor_faulty :: "bool \<Rightarrow> BaseBlockProcessor" where
  "ex_processor_faulty undoFails =
     \<lparr>forkStatus_run = (\<lambda>block lastBlk. Inr TIE_BREAK),
      validate_run = (\<lambda>block lastBlk stateStore. None),
      verify_run = (\<lambda>block lastBlk skipExistingCheck stateStore. None),
      apply_run = (\<lambda>block lastBlk skipExistingCheck stateStore.
         Some (Error (''Apply failed: '' @ blockId block))),
      undo_run = (\<lambda>block stateStore.
         if undoFails then Some (Error ''Undo failed'') else None),
      applyGenesis_run = (\<lambda>block stateStore. None),
      serialize_run = blockId\<rparr>"

definition ex_p_faulty :: "bool \<Rightarrow> Processor" where
  "ex_p_faulty undoFails =
     \<lparr>registered = [(1, ex_processor_faulty undoFails, \<lambda>block. True)],
      saveError = (\<lambda>chain block. None), removeError = (\<lambda>chain block. None)\<rparr>"

section \<open>Interoperability: chain termination (unnamed/part_006 and the liveness command)\<close>

text \<open>
  The stores of the interoperability module that the termination commands touch, keyed
  by chain identifier. A chain account holds the status and the last certificate; a
  terminated-state account records the state root of a terminated chain.
\<close>

datatype ChainStatus = REGISTERED | ACTIVE | TERMINATED

record LastCertificate =
  lc_height :: nat
  lc_stateRoot :: bytes
  lc_timestamp :: nat
  lc_validatorsHash :: bytes

record ChainAccount =
  ca_name :: string
  ca_lastCertificate :: LastCertificate
  ca_status :: ChainStatus

record TerminatedStateAccount =
  stateRoot :: bytes

record InteropState =
  chainAccountStore :: "(bytes, ChainAccount) store"
  channelStore :: "(bytes, bytes) store"
  terminatedStateStore :: "(bytes, TerminatedStateAccount) store"

record CCMsg =
  ccm_sendingChainID :: bytes
  ccm_receivingChainID :: bytes
  ccm_params :: bytes

record CCMSidechainTerminatedParams =
  p_chainID :: bytes
  p_stateRoot :: bytes

text \<open>
  Modelled from the spec: \<open>BaseStore.get\<close> and \<open>BaseStore.has\<close> (\<open>base_store\<close> is not
  among the sources) follow the store contract \<open>get(key) -> value | NotFound\<close>,
  \<open>has(key) -> bool\<close>: \<open>get\<close> of a missing key throws \<open>NotFoundError\<close>. The sources use
  them so: \<open>ReactCCCommand.execute\<close> asks \<open>has\<close> first and still catches
  \<open>NotFoundError\<close> around \<open>get\<close>.
\<close>

definition store_get :: "('k, 'v) store \<Rightarrow> 'k \<Rightarrow> error + 'v" where
  "store_get s key = getWithSchema s key"

definition store_has :: "('k, 'v) store \<Rightarrow> 'k \<Rightarrow> bool" where
  "store_has s key = has s key"

definition store_del :: "('k, 'v) store \<Rightarrow> 'k \<Rightarrow> ('k, 'v) store" where
  "store_del s key = AList.delete key s"

text \<open>
  Modelled from the spec: the internal methods \<open>createTerminatedStateAccount\<close> and
  \<open>terminateChainInternal\<close> (\<open>SidechainInteroperabilityInternalMethod\<close>, in
  \<open>../store\<close>) are not among the sources. The spec: a TerminatedStateAccount is created
  recording the chain's final stateRoot; terminating a chain internally marks it
  TERMINATED and severs its channel.
\<close>

definition createTerminatedStateAccount ::
    "bytes \<Rightarrow> bytes \<Rightarrow> InteropState \<Rightarrow> (error + unit) \<times> InteropState" where
  "createTerminatedStateAccount chainID root st =
     (Inr (),
      st\<lparr>terminatedStateStore :=
           setWithSchema (terminatedStateStore st) chainID \<lparr>stateRoot = root\<rparr>\<rparr>)"

definition terminateChainInternal ::
    "bytes \<Rightarrow> InteropState \<Rightarrow> (error + unit) \<times> InteropState" where
  "terminateChainInternal chainID st =
     (case store_get (chainAccountStore st) chainID of
        Inl e \<Rightarrow> (Inl e, st)
      | Inr chainAccount \<Rightarrow>
          (Inr (),
           st\<lparr>chainAccountStore :=
                  setWithSchema (chainAccountStore st) chainID
                    (chainAccount\<lparr>ca_status := TERMINATED\<rparr>),
                channelStore := store_del (channelStore st) chainID\<rparr>))"

text \<open>
  What a JavaScript condition makes of the value that a store's \<open>get\<close> resolved to: a
  decoded object is truthy, whatever it holds.
\<close>

definition truthy :: "TerminatedStateAccount \<Rightarrow> bool" where
  "truthy obj = True"

text \<open>
  \<open>SidechainCCSidechainTerminatedCommand.execute\<close>. \<open>mainchainID\<close> is
  \<open>getIDAsKeyForStore(MAINCHAIN_ID)\<close> and \<open>decode\<close> is \<open>codec.decode\<close> with the
  command's schema (constants and codec are not among the sources); the context carries
  the message, which may be missing.
\<close>

definition SidechainCCSidechainTerminatedCommand_execute ::
    "bytes \<Rightarrow> (bytes \<Rightarrow> error + CCMSidechainTerminatedParams) \<Rightarrow> CCMsg option \<Rightarrow>
     InteropState \<Rightarrow> (error + unit) \<times> InteropState" where
  "SidechainCCSidechainTerminatedCommand_execute mainchainID decode ccm st =
     (case ccm of
        None \<Rightarrow>
          (Inl (Error
             ''CCM to execute sidechain terminated cross chain command is missing.''), st)
      | Some ccm \<Rightarrow>
          (case decode (ccm_params ccm) of
             Inl e \<Rightarrow> (Inl e, st)
           | Inr ccmSidechainTerminatedParams \<Rightarrow>
               if ccm_sendingChainID ccm = mainchainID then
                 (case store_get (terminatedStateStore st)
                         (p_chainID ccmSidechainTerminatedParams) of
                    Inl e \<Rightarrow> (Inl e, st)
                  | Inr isTerminated \<Rightarrow>
                      if truthy isTerminated then (Inr (), st)
                      else createTerminatedStateAccount
                             (p_chainID ccmSidechainTerminatedParams)
                             (p_stateRoot ccmSidechainTerminatedParams) st)
               else terminateChainInternal (ccm_sendingChainID ccm) st))"

text \<open>
  Modelled from the spec: \<open>TerminateSidechainForLivenessCommand\<close> and the internal
  method \<open>isLive\<close> are not among the sources; only the command's unit test is. The spec:
  a chain is eligible for forced termination when its last certificate is older than a
  liveness threshold; verify rejects if the chain account does not exist, is already
  TERMINATED, or is still live; execute calls the internal terminate-chain routine
  unconditionally once verify passes. The threshold is a configuration input
  (\<open>livenessLimit\<close>); the age of the last certificate is its timestamp against the
  timestamp of the block being processed (\<open>now\<close>). The error messages are the ones the
  unit test expects.
\<close>

datatype VerifyStatus = FAIL | OK | PENDING

definition isLive :: "nat \<Rightarrow> nat \<Rightarrow> ChainAccount \<Rightarrow> bool" where
  "isLive livenessLimit now chainAccount =
     (\<not> (int now - int (lc_timestamp (ca_lastCertificate chainAccount)) > int livenessLimit))"

definition TerminateSidechainForLivenessCommand_verify ::
    "nat \<Rightarrow> nat \<Rightarrow> bytes \<Rightarrow> InteropState \<Rightarrow> error + VerifyStatus" where
  "TerminateSidechainForLivenessCommand_verify livenessLimit now chainID st =
     (case store_get (chainAccountStore st) chainID of
        Inl e \<Rightarrow> Inl (Error ''Chain account does not exist'')
      | Inr chainAccount \<Rightarrow>
          if ca_status chainAccount = TERMINATED then
            Inl (Error ''Sidechain is already terminated'')
          else if isLive livenessLimit now chainAccount then
            Inl (Error ''Sidechain did not violate the liveness condition'')
          else Inr OK)"

definition TerminateSidechainForLivenessCommand_execute ::
    "bytes \<Rightarrow> InteropState \<Rightarrow> (error + unit) \<times> InteropState" where
  "TerminateSidechainForLivenessCommand_execute chainID st =
     terminateChainInternal chainID st"

subsection \<open>Example inputs of the interoperability module\<close>

text \<open>
  The mainchain is \<open>00000000\<close>. \<open>ex_interop\<close> holds an active chain \<open>00000003\<close> whose
  last certificate has timestamp 1000 and no terminated-state account;
  \<open>ex_interop_terminated\<close> also holds a terminated-state account for it. The parameters
  of a message are two bytes lists, decoded from their concatenation (4 bytes of chain
  identifier, then the state root).
\<close>

definition ex_mainchainID :: bytes where
  "ex_mainchainID = [0, 0, 0, 0]"

definition ex_chainID :: bytes where
  "ex_chainID = [0, 0, 0, 3]"

definition ex_decode :: "bytes \<Rightarrow> error + CCMSidechainTerminatedParams" where
  "ex_decode bs =
     (if length bs < 4 then Inl (Error ''Invalid params'')
      else Inr \<lparr>p_chainID = take 4 bs, p_stateRoot = drop 4 bs\<rparr>)"

definition ex_chainAccount :: "ChainStatus \<Rightarrow> ChainAccount" where
  "ex_chainAccount s =
     \<lparr>ca_name = ''staleSidechain'',
      ca_lastCertificate = \<lparr>lc_height = 10, lc_stateRoot = [7], lc_timestamp = 1000,
                         lc_validatorsHash = [8]\<rparr>,
      ca_status = s\<rparr>"

definition ex_interop :: InteropState where
  "ex_interop =
     \<lparr>chainAccountStore = [(ex_chainID, ex_chainAccount ACTIVE)],
      channelStore = [(ex_chainID, [1])],
      terminatedStateStore = []\<rparr>"

definition ex_interop_terminated :: InteropState where
  "ex_interop_terminated =
     \<lparr>chainAccountStore = [(ex_chainID, ex_chainAccount TERMINATED)],
      channelStore = [],
      terminatedStateStore = [(ex_chainID, \<lparr>stateRoot = [7]\<rparr>)]\<rparr>"

definition ex_ccm :: "bytes \<Rightarrow> CCMsg" where
  "ex_ccm sender =
     \<lparr>ccm_sendingChainID = sender, ccm_receivingChainID = [0, 0, 0, 9],
      ccm_params = [0, 0, 0, 3, 5, 5]\<rparr>"

section \<open>Theorems\<close>

subsection \<open>Stores and balance totals\<close>


lemma map_of_setWithSchema:
  "map_of (setWithSchema s k v) k' = (if k' = k then Some v else map_of s k')"
  by (simp add: setWithSchema_def update_conv')

lemma getWithSchema_Inr: "getWithSchema s k = Inr v \<longleftrightarrow> map_of s k = Some v"
  by (simp add: getWithSchema_def split: option.splits)

lemma getWithSchema_Inl: "getWithSchema s k = Inl e \<longleftrightarrow> map_of s k = None \<and> e = NotFoundError"
  by (auto simp add: getWithSchema_def split: option.splits)

lemma accountExist_iff: "accountExist users a \<longleftrightarrow> (\<exists>t. map_of users (a, t) \<noteq> None)"
  unfolding accountExist_def Let_def
  by (induction users) (auto simp: filter_empty_conv split: if_splits)

lemma accountExistI: "map_of users (a, t) = Some u \<Longrightarrow> accountExist users a"
  unfolding accountExist_iff by (metis option.distinct(1))

lemma not_accountExistD: "\<not> accountExist users a \<Longrightarrow> map_of users (a, t) = None"
  unfolding accountExist_iff by metis

lemma accountExist_setWithSchema:
  "accountExist (setWithSchema users (a, t) v) r \<longleftrightarrow> r = a \<or> accountExist users r"
  unfolding accountExist_iff map_of_setWithSchema
  by (metis option.distinct(1) prod.inject)



lemma transfer_sender_entry:
  assumes "map_of (userStore st) (s, getCanonicalTokenID api t) = Some sender"
      and "0 \<le> availableBalance sender"
  shows "\<exists>sender'. map_of (userStore (snd (transfer api s r t amount st))) (s, getCanonicalTokenID api t) = Some sender'
           \<and> 0 \<le> availableBalance sender'"
  using assms
  unfolding transfer_def Let_def creditRecipient_def getRecipient_def getUserStoreKey_def
  by (auto simp: getWithSchema_def map_of_setWithSchema accountExist_setWithSchema
           split: option.splits sum.splits if_splits)

lemma sumUserBalances_frame [simp]:
  "sumUserBalances (st\<lparr>supplyStore := x\<rparr>) t = sumUserBalances st t"
  "sumUserBalances (st\<lparr>escrowStore := y\<rparr>) t = sumUserBalances st t"
  by (simp_all add: sumUserBalances_def)

lemma sumEscrow_frame [simp]:
  "sumEscrow (st\<lparr>supplyStore := x\<rparr>) l = sumEscrow st l"
  "sumEscrow (st\<lparr>userStore := y\<rparr>) l = sumEscrow st l"
  by (simp_all add: sumEscrow_def)


lemma totalBalance_frame [simp]:
  "totalBalance api (st\<lparr>supplyStore := x\<rparr>) t = totalBalance api st t"
  by (simp add: totalBalance_def)














subsection \<open>Token module claims\<close>




text \<open>
  C4 (as amended). A sender holds 100 of token T and transfers 30 to a recipient address
  that has no account for any token, the min balance configured for T being 5. Then
  the transfer succeeds, the sender's available balance is 70, the recipient's is 25,
  and the total supply of T is lower by exactly 5 if T is native to this chain (its
  supply entry exists) and the supply store is unchanged otherwise.
\<close>

theorem C4_transfer_to_new_address:
  assumes sender: "getWithSchema (userStore st)
             (getUserStoreKey senderAddress (getCanonicalTokenID api tokenID)) = Inr sender"
      and bal: "availableBalance sender = 100"
      and fresh: "\<not> accountExist (userStore st) recipientAddress"
      and mb: "getMinBalance api (getCanonicalTokenID api tokenID) = Some 5"
      and sup: "isNative api tokenID \<longrightarrow>
             getWithSchema (supplyStore st) (snd (getCanonicalTokenID api tokenID)) = Inr supply"
  shows "\<exists>st'. transfer api senderAddress recipientAddress tokenID 30 st = (Inr (), st')
       \<and> getWithSchema (userStore st')
             (getUserStoreKey senderAddress (getCanonicalTokenID api tokenID)) =
           Inr (sender\<lparr>availableBalance := 70\<rparr>)
       \<and> getWithSchema (userStore st')
             (getUserStoreKey recipientAddress (getCanonicalTokenID api tokenID)) =
           Inr \<lparr>availableBalance = 25, lockedBalances = []\<rparr>
       \<and> (if isNative api tokenID
            then getWithSchema (supplyStore st') (snd (getCanonicalTokenID api tokenID)) =
                   Inr (supply\<lparr>totalSupply := totalSupply supply - 5\<rparr>)
            else supplyStore st' = supplyStore st)"
proof -
  let ?ct = "getCanonicalTokenID api tokenID"
  from sender have s: "map_of (userStore st) (senderAddress, ?ct) = Some sender"
    by (simp add: getWithSchema_Inr getUserStoreKey_def)
  then have ex: "accountExist (userStore st) senderAddress"
    by (rule accountExistI)
  with fresh have ne: "recipientAddress \<noteq> senderAddress" by auto
  from fresh have r: "map_of (userStore st) (recipientAddress, ?ct) = None"
    by (rule not_accountExistD)
  have nat: "isNative api tokenID \<longleftrightarrow> fst ?ct = CHAIN_ID_ALIAS_NATIVE api"
    by (auto simp: isNative_def getCanonicalTokenID_def splitTokenID_def getNativeTokenID_def Let_def)
  show ?thesis
  proof (cases "isNative api tokenID")
    case True
    with sup have "map_of (supplyStore st) (snd ?ct) = Some supply"
      by (simp add: getWithSchema_Inr)
    with True s r ne fresh mb bal show ?thesis
      unfolding transfer_def Let_def creditRecipient_def getRecipient_def getUserStoreKey_def nat
      by (simp add: getWithSchema_def map_of_setWithSchema accountExist_setWithSchema splitTokenID_def)
  next
    case False
    with s r ne fresh mb bal show ?thesis
      unfolding transfer_def Let_def creditRecipient_def getRecipient_def getUserStoreKey_def nat
      by (simp add: getWithSchema_def map_of_setWithSchema accountExist_setWithSchema splitTokenID_def)
  qed
qed

text \<open>Witness of C4: the transfer of 30 from \<open>[1]\<close> to the new address \<open>[2]\<close> in \<open>ex_state\<close>.\<close>

theorem C4_witness:
  "\<exists>st'. transfer ex_api [1] [2] ex_T 30 ex_state = (Inr (), st')
       \<and> getWithSchema (userStore st') (getUserStoreKey [1] (getCanonicalTokenID ex_api ex_T)) =
           Inr \<lparr>availableBalance = 70, lockedBalances = []\<rparr>
       \<and> getWithSchema (userStore st') (getUserStoreKey [2] (getCanonicalTokenID ex_api ex_T)) =
           Inr \<lparr>availableBalance = 25, lockedBalances = []\<rparr>
       \<and> getWithSchema (supplyStore st') (snd (getCanonicalTokenID ex_api ex_T)) =
                   Inr \<lparr>totalSupply = 995\<rparr>"
proof -
  have 1: "getWithSchema (userStore ex_state) (getUserStoreKey [1] (getCanonicalTokenID ex_api ex_T))
      = Inr \<lparr>availableBalance = 100, lockedBalances = []\<rparr>" by code_simp
  have 2: "\<not> accountExist (userStore ex_state) [2]" by code_simp
  have 3: "getMinBalance ex_api (getCanonicalTokenID ex_api ex_T) = Some 5" by code_simp
  have 4: "isNative ex_api ex_T" by code_simp
  have 5: "getWithSchema (supplyStore ex_state) (snd (getCanonicalTokenID ex_api ex_T)) = Inr \<lparr>totalSupply = 1000\<rparr>"
    by code_simp
  show ?thesis
    using C4_transfer_to_new_address[OF 1 _ 2 3, of "\<lparr>totalSupply = 1000\<rparr>"] 4 5 by simp
qed

text \<open>
  Counterexample to C4 as stated: in \<open>ex_state2\<close> the recipient \<open>[2]\<close> has no account for
  \<open>ex_T\<close> but holds another token. The transfer of 30 then credits the full 30 (not 25)
  and leaves the total supply of the native token at 1000 (not 995).
\<close>

theorem C4_counterexample:
  "getWithSchema (userStore ex_state2) (getUserStoreKey [1] (getCanonicalTokenID ex_api ex_T)) =
     Inr \<lparr>availableBalance = 100, lockedBalances = []\<rparr>
   \<and> getWithSchema (userStore ex_state2) (getUserStoreKey [2] (getCanonicalTokenID ex_api ex_T)) =
     Inl NotFoundError
   \<and> getMinBalance ex_api (getCanonicalTokenID ex_api ex_T) = Some 5
   \<and> isNative ex_api ex_T
   \<and> fst (transfer ex_api [1] [2] ex_T 30 ex_state2) = Inr ()
   \<and> getWithSchema (userStore (snd (transfer ex_api [1] [2] ex_T 30 ex_state2)))
         (getUserStoreKey [2] (getCanonicalTokenID ex_api ex_T)) =
       Inr \<lparr>availableBalance = 30, lockedBalances = []\<rparr>
   \<and> getWithSchema (supplyStore ex_state2) (snd (getCanonicalTokenID ex_api ex_T)) =
       Inr \<lparr>totalSupply = 1000\<rparr>
   \<and> getWithSchema (supplyStore (snd (transfer ex_api [1] [2] ex_T 30 ex_state2)))
         (snd (getCanonicalTokenID ex_api ex_T)) =
       Inr \<lparr>totalSupply = 1000\<rparr>"
  by code_simp

text \<open>
  C5. When the sender's stored available balance for the token is less than the
  amount, \<open>transfer\<close> throws before debiting the sender: the store is returned as it
  was. Hence, when the stored available balance is non-negative, the sender's entry
  after \<open>transfer\<close> (whether it returned or threw) has a non-negative available balance.
\<close>

theorem C5_transfer_never_overdraws_sender:
  assumes "getWithSchema (userStore st)
             (getUserStoreKey senderAddress (getCanonicalTokenID api tokenID)) = Inr sender"
  shows "(availableBalance sender < amount \<longrightarrow>
            transfer api senderAddress recipientAddress tokenID amount st =
              (Inl (InsufficientBalance senderAddress (availableBalance sender) amount), st))
       \<and> (0 \<le> availableBalance sender \<longrightarrow>
            (\<exists>sender'.
               getWithSchema
                 (userStore (snd (transfer api senderAddress recipientAddress tokenID amount st)))
                 (getUserStoreKey senderAddress (getCanonicalTokenID api tokenID)) = Inr sender'
               \<and> 0 \<le> availableBalance sender'))"
proof (intro conjI impI)
  assume "availableBalance sender < amount"
  with assms show "transfer api senderAddress recipientAddress tokenID amount st =
      (Inl (InsufficientBalance senderAddress (availableBalance sender) amount), st)"
    by (simp add: transfer_def)
next
  assume "0 \<le> availableBalance sender"
  moreover from assms have "map_of (userStore st) (senderAddress, getCanonicalTokenID api tokenID) = Some sender"
    by (simp add: getWithSchema_Inr getUserStoreKey_def)
  ultimately show "\<exists>sender'.
               getWithSchema
                 (userStore (snd (transfer api senderAddress recipientAddress tokenID amount st)))
                 (getUserStoreKey senderAddress (getCanonicalTokenID api tokenID)) = Inr sender'
               \<and> 0 \<le> availableBalance sender'"
    using transfer_sender_entry[of st senderAddress api tokenID sender recipientAddress amount]
    by (simp add: getWithSchema_Inr getUserStoreKey_def)
qed

text \<open>
  Witness of C5: with 100 available, a transfer of 130 throws and leaves the store as it
  was; a transfer of 30 leaves the sender a non-negative balance.
\<close>

theorem C5_transfer_never_overdraws_sender_witness:
  "transfer ex_api [1] [2] ex_T 130 ex_state = (Inl (InsufficientBalance [1] 100 130), ex_state)
   \<and> (\<exists>sender'.
         getWithSchema (userStore (snd (transfer ex_api [1] [2] ex_T 30 ex_state)))
           (getUserStoreKey [1] (getCanonicalTokenID ex_api ex_T)) = Inr sender'
         \<and> 0 \<le> availableBalance sender')"
proof -
  have 1: "getWithSchema (userStore ex_state)
             (getUserStoreKey [1] (getCanonicalTokenID ex_api ex_T)) =
           Inr \<lparr>availableBalance = 100, lockedBalances = []\<rparr>"
    by code_simp
  show ?thesis
    using C5_transfer_never_overdraws_sender[OF 1, of 130 "[2]"]
          C5_transfer_never_overdraws_sender[OF 1, of 30 "[2]"]
    by simp
qed

subsection \<open>Block processor lemmas\<close>

lemma serialize_registered:
  "getBlockProcessor' p block = Inr bp \<Longrightarrow> serialize p block = Inr (serialize_run bp block)"
  by (simp add: serialize_def)

lemma emit_simps [simp]:
  "chainModule (emit e st) = chainModule st"
  "trace (emit e st) = trace st @ [e]"
  by (simp_all add: emit_def)

lemma newEffects_emit [simp]:
  "newEffects st st = []"
  "newEffects st (emit e st) = [e]"
  "newEffects st (emit e' (emit e st)) = [e, e']"
  by (simp_all add: newEffects_def emit_def)

lemma processValidated'_chain:
  "processValidated' p block lastBlk bp False skipBroadcast rft st = (r, st') \<Longrightarrow>
     (case r of
        Inl e \<Rightarrow> chainModule st' = chainModule st
      | Inr applied \<Rightarrow>
          applied = block \<and>
          chainModule st' = \<lparr>lastBlock = block, persisted = block # persisted (chainModule st)\<rparr>)"
  unfolding processValidated'_def Let_def chainSave_def
  by (auto split: option.splits sum.splits if_splits)

lemma deleteBlock'_result:
  "deleteBlock' p T bp saveTempBlock st = (r, st') \<Longrightarrow>
     (case r of
        Inl e \<Rightarrow>
          chainModule st' = chainModule st \<and>
          (trace st' = trace st @ [RunUndo T] \<or> trace st' = trace st @ [RunUndo T, ChainRemove T])
      | Inr u \<Rightarrow>
          trace st' = trace st @ [RunUndo T, ChainRemove T] \<and>
          (\<exists>tip newTip rest. persisted (chainModule st) = tip # newTip # rest \<and>
             chainModule st' = \<lparr>lastBlock = newTip, persisted = newTip # rest\<rparr>))"
  unfolding deleteBlock'_def chainRemove_def Let_def
  by (auto simp: emit_def split: option.splits sum.splits list.splits if_splits)

lemma process_TIE_BREAK_invalid:
  assumes "getBlockProcessor' p block = Inr bp"
      and "forkStatus_run bp block (lastBlock (chainModule st)) = Inr TIE_BREAK"
      and "validate_run bp block (lastBlock (chainModule st))
             (newStateStore (chainModule st) 0) = Some e"
  shows "process p block peerId st =
           (Inl e, emit (RunValidate block)
                     (emit (Published ''app:chain:fork'' (serialize_run bp block) None) st))"
  using assms serialize_registered[OF assms(1)]
  by (simp add: process_def forkStatusList_def Let_def)

lemma process_TIE_BREAK_revert_fails:
  assumes "getBlockProcessor' p block = Inr bp"
      and "forkStatus_run bp block (lastBlock (chainModule st)) = Inr TIE_BREAK"
      and "validate_run bp block (lastBlock (chainModule st))
             (newStateStore (chainModule st) 0) = None"
      and "deleteBlock' p (lastBlock (chainModule st)) bp False
             (emit (RunValidate block)
                (emit (Published ''app:chain:fork'' (serialize_run bp block) None) st)) =
           (Inl e, st3)"
  shows "process p block peerId st = (Inl e, st3)"
  using assms serialize_registered[OF assms(1)]
  by (simp add: process_def forkStatusList_def Let_def)

lemma process_TIE_BREAK:
  assumes "getBlockProcessor' p block = Inr bp"
      and "forkStatus_run bp block (lastBlock (chainModule st)) = Inr TIE_BREAK"
      and "validate_run bp block (lastBlock (chainModule st))
             (newStateStore (chainModule st) 0) = None"
      and "deleteBlock' p (lastBlock (chainModule st)) bp False
             (emit (RunValidate block)
                (emit (Published ''app:chain:fork'' (serialize_run bp block) None) st)) =
           (Inr (), st3)"
      and "processValidated' p block (lastBlock (chainModule st3)) bp False False False st3 =
           (r4, st4)"
      and "processValidated' p (lastBlock (chainModule st)) (lastBlock (chainModule st3)) bp
             False True False st4 = (r5, st5)"
  shows "process p block peerId st =
      (case r4 of
         Inr applied \<Rightarrow> (Inr (), st4)
       | Inl err \<Rightarrow> (case r5 of Inl e \<Rightarrow> (Inl e, st5) | Inr restored \<Rightarrow> (Inr (), st5)))"
  using assms serialize_registered[OF assms(1)]
  by (simp add: process_def forkStatusList_def Let_def split: sum.splits)

lemma ex_getBlockProcessor:
  "getBlockProcessor' (ex_p fs) (ex_candidate i) = Inr (ex_processor fs)"
  "getBlockProcessor' (ex_p fs) ex_genesis = Inr (ex_processor fs)"
  by (simp_all add: getBlockProcessor'_def ex_p_def ex_candidate_def ex_block_def ex_genesis_def)

lemma ex_forkStatus:
  "forkStatus_run (ex_processor fs) block (lastBlock (chainModule st)) = Inr fs"
  by (simp add: ex_processor_def)

lemma ex_faulty_getBlockProcessor:
  "getBlockProcessor' (ex_p_faulty u) (ex_candidate i) = Inr (ex_processor_faulty u)"
  by (simp add: getBlockProcessor'_def ex_p_faulty_def ex_candidate_def ex_block_def)

lemma ex_faulty_forkStatus:
  "forkStatus_run (ex_processor_faulty u) block (lastBlock (chainModule st)) = Inr TIE_BREAK"
  by (simp add: ex_processor_faulty_def)

subsection \<open>Block processor claims\<close>

text \<open>
  C1 (as amended). For a candidate block whose fork status is \<open>IDENTICAL_BLOCK\<close>,
  \<open>DISCARD\<close>, \<open>DOUBLE_FORGING\<close> or \<open>DIFFERENT_CHAIN\<close>, \<open>process\<close> returns without
  applying the block and without changing the chain: \<open>IDENTICAL_BLOCK\<close> publishes
  nothing, \<open>DISCARD\<close> and \<open>DOUBLE_FORGING\<close> publish \<open>app:chain:fork\<close>, and
  \<open>DIFFERENT_CHAIN\<close> publishes \<open>app:chain:sync\<close> and then \<open>app:chain:fork\<close>. For
  \<open>VALID_BLOCK\<close> the block is validated and then, when validation passes, applied on
  the current tip. Only \<open>VALID_BLOCK\<close> and \<open>TIE_BREAK\<close> validate and apply: for every
  other status the chain is unchanged and the run adds nothing but notifications.
\<close>

theorem C1_process_by_fork_status:
  assumes gp: "getBlockProcessor' p block = Inr bp"
      and fs: "forkStatus_run bp block (lastBlock (chainModule st)) = Inr fs"
  shows "(fs = IDENTICAL_BLOCK \<longrightarrow> process p block peerId st = (Inr (), st))
     \<and> (fs = DISCARD \<or> fs = DOUBLE_FORGING \<longrightarrow>
          process p block peerId st =
            (Inr (), emit (Published ''app:chain:fork'' (serialize_run bp block) None) st))
     \<and> (fs = DIFFERENT_CHAIN \<longrightarrow>
          process p block peerId st =
            (Inr (), emit (Published ''app:chain:fork'' (serialize_run bp block) None)
                       (emit (Published ''app:chain:sync'' (serialize_run bp block) peerId) st)))
     \<and> (fs = VALID_BLOCK \<longrightarrow>
          process p block peerId st =
            (case validate_run bp block (lastBlock (chainModule st))
                    (newStateStore (chainModule st) 0) of
               Some e \<Rightarrow> (Inl e, emit (RunValidate block) st)
             | None \<Rightarrow>
                 (case processValidated' p block (lastBlock (chainModule st)) bp
                         False False False (emit (RunValidate block) st) of
                    (Inl e, st') \<Rightarrow> (Inl e, st')
                  | (Inr applied, st') \<Rightarrow> (Inr (), st'))))
     \<and> (fs \<noteq> VALID_BLOCK \<and> fs \<noteq> TIE_BREAK \<longrightarrow>
          chainModule (snd (process p block peerId st)) = chainModule st
          \<and> (\<forall>eff \<in> set (newEffects st (snd (process p block peerId st))).
                \<exists>name blockJSON peer. eff = Published name blockJSON peer))"
proof -
  note s = serialize_registered[OF gp]
  show ?thesis
    using gp fs s
    by (cases fs)
       (simp_all add: process_def forkStatusList_def Let_def)
qed

text \<open>
  Witness of C1: the example processor under each of the four statuses, under
  \<open>VALID_BLOCK\<close> with a block that passes validation (applied on the tip \<open>T\<close>) and
  under \<open>VALID_BLOCK\<close> with a block that fails it.
\<close>

theorem C1_process_by_fork_status_witness:
  "process (ex_p IDENTICAL_BLOCK) (ex_candidate ''C'') (Some ''peer'') ex_pstate = (Inr (), ex_pstate)
   \<and> process (ex_p DISCARD) (ex_candidate ''C'') (Some ''peer'') ex_pstate =
       (Inr (), ex_pstate\<lparr>trace := [Published ''app:chain:fork'' ''C'' None]\<rparr>)
   \<and> process (ex_p DOUBLE_FORGING) (ex_candidate ''C'') (Some ''peer'') ex_pstate =
       (Inr (), ex_pstate\<lparr>trace := [Published ''app:chain:fork'' ''C'' None]\<rparr>)
   \<and> process (ex_p DIFFERENT_CHAIN) (ex_candidate ''C'') (Some ''peer'') ex_pstate =
       (Inr (), ex_pstate\<lparr>trace := [Published ''app:chain:sync'' ''C'' (Some ''peer''),
                                    Published ''app:chain:fork'' ''C'' None]\<rparr>)
   \<and> process (ex_p VALID_BLOCK) (ex_candidate ''C'') (Some ''peer'') ex_pstate =
       (Inr (),
        \<lparr>chainModule = \<lparr>lastBlock = ex_candidate ''C'',
                         persisted = [ex_candidate ''C'', ex_tip, ex_genesis]\<rparr>,
         trace = [RunValidate (ex_candidate ''C''),
                  RunVerify (ex_candidate ''C'') ex_tip,
                  Published ''app:block:broadcast'' ''C'' None,
                  RunApply (ex_candidate ''C'') ex_tip,
                  ChainSave (ex_candidate ''C'') False]\<rparr>)
   \<and> process (ex_p VALID_BLOCK) (ex_candidate ''X'') (Some ''peer'') ex_pstate =
       (Inl (Error ''Invalid block''), ex_pstate\<lparr>trace := [RunValidate (ex_candidate ''X'')]\<rparr>)"
proof -
  have t: "trace ex_pstate = []" by (simp add: ex_pstate_def)
  have ser: "serialize_run (ex_processor fs) (ex_candidate i) = i" for fs i
    by (simp add: ex_processor_def ex_candidate_def ex_block_def)
  have val: "validate_run (ex_processor VALID_BLOCK) (ex_candidate ''C'')
               (lastBlock (chainModule ex_pstate)) (newStateStore (chainModule ex_pstate) 0) = None"
            "validate_run (ex_processor VALID_BLOCK) (ex_candidate ''X'')
               (lastBlock (chainModule ex_pstate)) (newStateStore (chainModule ex_pstate) 0) =
             Some (Error ''Invalid block'')"
    by (simp_all add: ex_processor_def ex_candidate_def ex_block_def)
  have pv: "processValidated' (ex_p VALID_BLOCK) (ex_candidate ''C'')
              (lastBlock (chainModule ex_pstate)) (ex_processor VALID_BLOCK) False False False
              (emit (RunValidate (ex_candidate ''C'')) ex_pstate) =
       (Inr (ex_candidate ''C''),
        \<lparr>chainModule = \<lparr>lastBlock = ex_candidate ''C'',
                         persisted = [ex_candidate ''C'', ex_tip, ex_genesis]\<rparr>,
         trace = [RunValidate (ex_candidate ''C''),
                  RunVerify (ex_candidate ''C'') ex_tip,
                  Published ''app:block:broadcast'' ''C'' None,
                  RunApply (ex_candidate ''C'') ex_tip,
                  ChainSave (ex_candidate ''C'') False]\<rparr>)"
    by code_simp
  show ?thesis
    using C1_process_by_fork_status[OF ex_getBlockProcessor(1)[of IDENTICAL_BLOCK "''C''"]
            ex_forkStatus[of IDENTICAL_BLOCK _ ex_pstate], of "Some ''peer''"]
          C1_process_by_fork_status[OF ex_getBlockProcessor(1)[of DISCARD "''C''"]
            ex_forkStatus[of DISCARD _ ex_pstate], of "Some ''peer''"]
          C1_process_by_fork_status[OF ex_getBlockProcessor(1)[of DOUBLE_FORGING "''C''"]
            ex_forkStatus[of DOUBLE_FORGING _ ex_pstate], of "Some ''peer''"]
          C1_process_by_fork_status[OF ex_getBlockProcessor(1)[of DIFFERENT_CHAIN "''C''"]
            ex_forkStatus[of DIFFERENT_CHAIN _ ex_pstate], of "Some ''peer''"]
          C1_process_by_fork_status[OF ex_getBlockProcessor(1)[of VALID_BLOCK "''C''"]
            ex_forkStatus[of VALID_BLOCK _ ex_pstate], of "Some ''peer''"]
          C1_process_by_fork_status[OF ex_getBlockProcessor(1)[of VALID_BLOCK "''X''"]
            ex_forkStatus[of VALID_BLOCK _ ex_pstate], of "Some ''peer''"]
    by (simp add: ser val pv) (simp add: emit_def t)
qed

text \<open>
  Counterexample to C1 as stated ("only for VALID_BLOCK does it validate and then apply
  the block"): a candidate classified \<open>TIE_BREAK\<close> is validated and then applied as well,
  after the tip has been reverted.
\<close>

theorem C1_counterexample:
  "forkStatus_run (ex_processor TIE_BREAK) (ex_candidate ''C'') (lastBlock (chainModule ex_pstate))
     = Inr TIE_BREAK
   \<and> process (ex_p TIE_BREAK) (ex_candidate ''C'') None ex_pstate =
     (Inr (),
      \<lparr>chainModule = \<lparr>lastBlock = ex_candidate ''C'',
                       persisted = [ex_candidate ''C'', ex_genesis]\<rparr>,
       trace = [Published ''app:chain:fork'' ''C'' None,
                RunValidate (ex_candidate ''C''),
                RunUndo ex_tip, ChainRemove ex_tip,
                RunVerify (ex_candidate ''C'') ex_genesis,
                Published ''app:block:broadcast'' ''C'' None,
                RunApply (ex_candidate ''C'') ex_genesis,
                ChainSave (ex_candidate ''C'') False]\<rparr>)"
  by code_simp

text \<open>
  C2 (as amended). For a candidate block classified \<open>TIE_BREAK\<close> against the tip \<open>T\<close>
  (the newest block in storage), \<open>process\<close> publishes the fork and validates the
  candidate first. When validation fails, \<open>process\<close> throws the validation error and
  \<open>T\<close> stays in place. Otherwise \<open>T\<close> is reverted (undone and removed): when the revert
  fails, \<open>process\<close> throws its error, the chain is unchanged and the candidate is not
  applied; when it succeeds, the chain is one block below and the candidate is applied
  there. If that succeeds the candidate is the new tip. If it throws, the chain is still
  one block below and \<open>T\<close> is re-applied: when that succeeds the chain is restored to
  what it was and \<open>process\<close> returns normally; when it throws, the chain stays one block
  below \<open>T\<close> and \<open>process\<close> throws that second error. In no case is the candidate's
  application error propagated.
\<close>

theorem C2_tie_break_replaces_tip:
  assumes gp: "getBlockProcessor' p block = Inr bp"
      and fs: "forkStatus_run bp block (lastBlock (chainModule st)) = Inr TIE_BREAK"
      and tip: "persisted (chainModule st) = lastBlock (chainModule st) # below"
  shows "let T = lastBlock (chainModule st);
             validating = emit (RunValidate block)
               (emit (Published ''app:chain:fork'' (serialize_run bp block) None) st)
         in case validate_run bp block T (newStateStore (chainModule st) 0) of
              Some e \<Rightarrow>
                process p block peerId st = (Inl e, validating) \<and>
                chainModule validating = chainModule st
            | None \<Rightarrow>
                (case deleteBlock' p T bp False validating of
                   (Inl e, st3) \<Rightarrow>
                     process p block peerId st = (Inl e, st3) \<and>
                     chainModule st3 = chainModule st \<and>
                     (trace st3 = trace validating @ [RunUndo T] \<or>
                      trace st3 = trace validating @ [RunUndo T, ChainRemove T])
                 | (Inr reverted, st3) \<Rightarrow>
                     trace st3 = trace validating @ [RunUndo T, ChainRemove T] \<and>
                     (\<exists>newTip rest. below = newTip # rest \<and>
                        chainModule st3 = \<lparr>lastBlock = newTip, persisted = below\<rparr>) \<and>
                     (case processValidated' p block (lastBlock (chainModule st3)) bp
                             False False False st3 of
                        (Inr applied, st4) \<Rightarrow>
                          process p block peerId st = (Inr (), st4) \<and>
                          chainModule st4 = \<lparr>lastBlock = block, persisted = block # below\<rparr>
                      | (Inl err, st4) \<Rightarrow>
                          chainModule st4 = chainModule st3 \<and>
                          (case processValidated' p T (lastBlock (chainModule st3)) bp
                                  False True False st4 of
                             (Inr restored, st5) \<Rightarrow>
                               process p block peerId st = (Inr (), st5) \<and>
                               chainModule st5 = chainModule st
                           | (Inl e, st5) \<Rightarrow>
                               process p block peerId st = (Inl e, st5) \<and>
                               chainModule st5 = chainModule st3)))"
proof -
  define T where "T = lastBlock (chainModule st)"
  define validating where "validating = emit (RunValidate block)
      (emit (Published ''app:chain:fork'' (serialize_run bp block) None) st)"
  have cv: "chainModule validating = chainModule st"
    by (simp add: validating_def)
  have whole: "chainModule st = \<lparr>lastBlock = T, persisted = T # below\<rparr>"
    using tip by (cases "chainModule st") (simp add: T_def)
  show ?thesis
  proof (cases "validate_run bp block T (newStateStore (chainModule st) 0)")
    case (Some e)
    then show ?thesis
      using process_TIE_BREAK_invalid[OF gp fs, of e peerId]
      by (simp add: Let_def T_def)
  next
    case None
    obtain r3 st3 where del: "deleteBlock' p T bp False validating = (r3, st3)"
      by (cases "deleteBlock' p T bp False validating")
    note dr = deleteBlock'_result[OF del]
    show ?thesis
    proof (cases r3)
      case (Inl e)
      then show ?thesis
        using None del dr cv
              process_TIE_BREAK_revert_fails[OF gp fs, of e st3 peerId]
        by (simp add: Let_def T_def[symmetric] validating_def[symmetric])
    next
      case (Inr u)
      from dr Inr cv tip obtain newTip rest where
        b: "below = newTip # rest" and
        c3: "chainModule st3 = \<lparr>lastBlock = newTip, persisted = below\<rparr>" and
        t3: "trace st3 = trace validating @ [RunUndo T, ChainRemove T]"
        by auto
      have nt: "lastBlock (chainModule st3) = newTip"
        by (simp add: c3)
      obtain r4 st4 where
        pv: "processValidated' p block newTip bp False False False st3 = (r4, st4)"
        by (cases "processValidated' p block newTip bp False False False st3")
      obtain r5 st5 where
        pv2: "processValidated' p T newTip bp False True False st4 = (r5, st5)"
        by (cases "processValidated' p T newTip bp False True False st4")
      have del': "deleteBlock' p (lastBlock (chainModule st)) bp False
             (emit (RunValidate block)
                (emit (Published ''app:chain:fork'' (serialize_run bp block) None) st)) =
           (Inr (), st3)"
        using del Inr by (simp add: T_def validating_def)
      have proc: "process p block peerId st =
          (case r4 of
             Inr applied \<Rightarrow> (Inr (), st4)
           | Inl err \<Rightarrow> (case r5 of Inl e \<Rightarrow> (Inl e, st5) | Inr restored \<Rightarrow> (Inr (), st5)))"
        using process_TIE_BREAK[OF gp fs _ del', of r4 st4 r5 st5 peerId] None pv pv2
        by (simp add: T_def nt)
      show ?thesis
        using processValidated'_chain[OF pv] processValidated'_chain[OF pv2] proc None
        unfolding Let_def T_def[symmetric] validating_def[symmetric]
        by (cases r4; cases r5) (simp_all add: del Inr pv pv2 c3 t3 b whole)
    qed
  qed
qed


text \<open>
  Witness of C2, one run for every outcome: the candidate \<open>X\<close> fails validation; with
  the undo pipeline failing, the revert of \<open>T\<close> throws; the candidate \<open>C\<close> replaces \<open>T\<close>;
  the candidate \<open>F\<close>, whose application fails, leaves the chain at the tip \<open>T\<close> again
  and \<open>process\<close> returns normally; with the apply pipeline failing for every block, the
  re-application of \<open>T\<close> throws and the chain stays at the genesis block.
\<close>

theorem C2_tie_break_replaces_tip_witness:
  "process (ex_p TIE_BREAK) (ex_candidate ''X'') None ex_pstate =
     (Inl (Error ''Invalid block''),
      \<lparr>chainModule = \<lparr>lastBlock = ex_tip, persisted = [ex_tip, ex_genesis]\<rparr>,
       trace = [Published ''app:chain:fork'' ''X'' None, RunValidate (ex_candidate ''X'')]\<rparr>)
   \<and> process (ex_p_faulty True) (ex_candidate ''C'') None ex_pstate =
     (Inl (Error ''Undo failed''),
      \<lparr>chainModule = \<lparr>lastBlock = ex_tip, persisted = [ex_tip, ex_genesis]\<rparr>,
       trace = [Published ''app:chain:fork'' ''C'' None, RunValidate (ex_candidate ''C''),
                RunUndo ex_tip]\<rparr>)
   \<and> process (ex_p TIE_BREAK) (ex_candidate ''C'') None ex_pstate =
     (Inr (),
      \<lparr>chainModule = \<lparr>lastBlock = ex_candidate ''C'',
                       persisted = [ex_candidate ''C'', ex_genesis]\<rparr>,
       trace = [Published ''app:chain:fork'' ''C'' None,
                RunValidate (ex_candidate ''C''),
                RunUndo ex_tip, ChainRemove ex_tip,
                RunVerify (ex_candidate ''C'') ex_genesis,
                Published ''app:block:broadcast'' ''C'' None,
                RunApply (ex_candidate ''C'') ex_genesis,
                ChainSave (ex_candidate ''C'') False]\<rparr>)
   \<and> process (ex_p TIE_BREAK) (ex_candidate ''F'') None ex_pstate =
     (Inr (),
      \<lparr>chainModule = \<lparr>lastBlock = ex_tip, persisted = [ex_tip, ex_genesis]\<rparr>,
       trace = [Published ''app:chain:fork'' ''F'' None,
                RunValidate (ex_candidate ''F''),
                RunUndo ex_tip, ChainRemove ex_tip,
                RunVerify (ex_candidate ''F'') ex_genesis,
                Published ''app:block:broadcast'' ''F'' None,
                RunApply (ex_candidate ''F'') ex_genesis,
                RunVerify ex_tip ex_genesis,
                RunApply ex_tip ex_genesis,
                ChainSave ex_tip False]\<rparr>)
   \<and> process (ex_p_faulty False) (ex_candidate ''C'') None ex_pstate =
     (Inl (Error ''Apply failed: T''),
      \<lparr>chainModule = \<lparr>lastBlock = ex_genesis, persisted = [ex_genesis]\<rparr>,
       trace = [Published ''app:chain:fork'' ''C'' None,
                RunValidate (ex_candidate ''C''),
                RunUndo ex_tip, ChainRemove ex_tip,
                RunVerify (ex_candidate ''C'') ex_genesis,
                Published ''app:block:broadcast'' ''C'' None,
                RunApply (ex_candidate ''C'') ex_genesis,
                RunVerify ex_tip ex_genesis,
                RunApply ex_tip ex_genesis]\<rparr>)"
proof -
  have tip: "persisted (chainModule ex_pstate) = lastBlock (chainModule ex_pstate) # [ex_genesis]"
    by (simp add: ex_pstate_def)
  have lb: "lastBlock (chainModule ex_pstate) = ex_tip"
    by (simp add: ex_pstate_def)
  have val: "validate_run (ex_processor TIE_BREAK) (ex_candidate ''X'') ex_tip
               (newStateStore (chainModule ex_pstate) 0) = Some (Error ''Invalid block'')"
            "validate_run (ex_processor TIE_BREAK) (ex_candidate ''C'') ex_tip
               (newStateStore (chainModule ex_pstate) 0) = None"
            "validate_run (ex_processor TIE_BREAK) (ex_candidate ''F'') ex_tip
               (newStateStore (chainModule ex_pstate) 0) = None"
            "validate_run (ex_processor_faulty u) (ex_candidate ''C'') ex_tip
               (newStateStore (chainModule ex_pstate) 0) = None" for u
    by (simp_all add: ex_processor_def ex_processor_faulty_def ex_candidate_def ex_block_def)
  have x: "emit (RunValidate (ex_candidate ''X''))
             (emit (Published ''app:chain:fork''
                (serialize_run (ex_processor TIE_BREAK) (ex_candidate ''X'')) None) ex_pstate) =
           \<lparr>chainModule = \<lparr>lastBlock = ex_tip, persisted = [ex_tip, ex_genesis]\<rparr>,
            trace = [Published ''app:chain:fork'' ''X'' None, RunValidate (ex_candidate ''X'')]\<rparr>"
    by code_simp
  have delU: "deleteBlock' (ex_p_faulty True) ex_tip (ex_processor_faulty True) False
            (emit (RunValidate (ex_candidate ''C''))
              (emit (Published ''app:chain:fork''
                 (serialize_run (ex_processor_faulty True) (ex_candidate ''C'')) None) ex_pstate)) =
          (Inl (Error ''Undo failed''),
           \<lparr>chainModule = \<lparr>lastBlock = ex_tip, persisted = [ex_tip, ex_genesis]\<rparr>,
            trace = [Published ''app:chain:fork'' ''C'' None, RunValidate (ex_candidate ''C''),
                     RunUndo ex_tip]\<rparr>)"
    by code_simp
  have del: "deleteBlock' (ex_p TIE_BREAK) ex_tip (ex_processor TIE_BREAK) False
            (emit (RunValidate (ex_candidate i))
              (emit (Published ''app:chain:fork''
                 (serialize_run (ex_processor TIE_BREAK) (ex_candidate i)) None) ex_pstate)) =
          (Inr (),
           \<lparr>chainModule = \<lparr>lastBlock = ex_genesis, persisted = [ex_genesis]\<rparr>,
            trace = [Published ''app:chain:fork'' i None, RunValidate (ex_candidate i),
                     RunUndo ex_tip, ChainRemove ex_tip]\<rparr>)" for i
    by (simp add: deleteBlock'_def Let_def newStateStore_def chainRemove_def emit_def
          ex_pstate_def ex_p_def ex_processor_def ex_candidate_def ex_block_def ex_tip_def)
  have delA: "deleteBlock' (ex_p_faulty False) ex_tip (ex_processor_faulty False) False
            (emit (RunValidate (ex_candidate ''C''))
              (emit (Published ''app:chain:fork''
                 (serialize_run (ex_processor_faulty False) (ex_candidate ''C'')) None) ex_pstate)) =
          (Inr (),
           \<lparr>chainModule = \<lparr>lastBlock = ex_genesis, persisted = [ex_genesis]\<rparr>,
            trace = [Published ''app:chain:fork'' ''C'' None, RunValidate (ex_candidate ''C''),
                     RunUndo ex_tip, ChainRemove ex_tip]\<rparr>)"
    by code_simp
  have pvC: "processValidated' (ex_p TIE_BREAK) (ex_candidate ''C'') ex_genesis
               (ex_processor TIE_BREAK) False False False
               \<lparr>chainModule = \<lparr>lastBlock = ex_genesis, persisted = [ex_genesis]\<rparr>,
                trace = [Published ''app:chain:fork'' ''C'' None, RunValidate (ex_candidate ''C''),
                         RunUndo ex_tip, ChainRemove ex_tip]\<rparr> =
     (Inr (ex_candidate ''C''),
      \<lparr>chainModule = \<lparr>lastBlock = ex_candidate ''C'',
                       persisted = [ex_candidate ''C'', ex_genesis]\<rparr>,
       trace = [Published ''app:chain:fork'' ''C'' None,
                RunValidate (ex_candidate ''C''),
                RunUndo ex_tip, ChainRemove ex_tip,
                RunVerify (ex_candidate ''C'') ex_genesis,
                Published ''app:block:broadcast'' ''C'' None,
                RunApply (ex_candidate ''C'') ex_genesis,
                ChainSave (ex_candidate ''C'') False]\<rparr>)"
    by code_simp
  have pvF: "processValidated' (ex_p TIE_BREAK) (ex_candidate ''F'') ex_genesis
               (ex_processor TIE_BREAK) False False False
               \<lparr>chainModule = \<lparr>lastBlock = ex_genesis, persisted = [ex_genesis]\<rparr>,
                trace = [Published ''app:chain:fork'' ''F'' None, RunValidate (ex_candidate ''F''),
                         RunUndo ex_tip, ChainRemove ex_tip]\<rparr> =
             (Inl (Error ''Apply failed''),
              \<lparr>chainModule = \<lparr>lastBlock = ex_genesis, persisted = [ex_genesis]\<rparr>,
               trace = [Published ''app:chain:fork'' ''F'' None,
                RunValidate (ex_candidate ''F''),
                RunUndo ex_tip, ChainRemove ex_tip,
                RunVerify (ex_candidate ''F'') ex_genesis,
                Published ''app:block:broadcast'' ''F'' None,
                RunApply (ex_candidate ''F'') ex_genesis]\<rparr>)"
    by code_simp
  have pvT: "processValidated' (ex_p TIE_BREAK) ex_tip ex_genesis
               (ex_processor TIE_BREAK) False True False
              \<lparr>chainModule = \<lparr>lastBlock = ex_genesis, persisted = [ex_genesis]\<rparr>,
               trace = [Published ''app:chain:fork'' ''F'' None,
                RunValidate (ex_candidate ''F''),
                RunUndo ex_tip, ChainRemove ex_tip,
                RunVerify (ex_candidate ''F'') ex_genesis,
                Published ''app:block:broadcast'' ''F'' None,
                RunApply (ex_candidate ''F'') ex_genesis]\<rparr> =
             (Inr ex_tip,
      \<lparr>chainModule = \<lparr>lastBlock = ex_tip, persisted = [ex_tip, ex_genesis]\<rparr>,
       trace = [Published ''app:chain:fork'' ''F'' None,
                RunValidate (ex_candidate ''F''),
                RunUndo ex_tip, ChainRemove ex_tip,
                RunVerify (ex_candidate ''F'') ex_genesis,
                Published ''app:block:broadcast'' ''F'' None,
                RunApply (ex_candidate ''F'') ex_genesis,
                RunVerify ex_tip ex_genesis,
                RunApply ex_tip ex_genesis,
                ChainSave ex_tip False]\<rparr>)"
    by code_simp
  have pvA: "processValidated' (ex_p_faulty False) (ex_candidate ''C'') ex_genesis
               (ex_processor_faulty False) False False False
               \<lparr>chainModule = \<lparr>lastBlock = ex_genesis, persisted = [ex_genesis]\<rparr>,
                trace = [Published ''app:chain:fork'' ''C'' None, RunValidate (ex_candidate ''C''),
                         RunUndo ex_tip, ChainRemove ex_tip]\<rparr> =
             (Inl (Error ''Apply failed: C''),
              \<lparr>chainModule = \<lparr>lastBlock = ex_genesis, persisted = [ex_genesis]\<rparr>,
               trace = [Published ''app:chain:fork'' ''C'' None,
                RunValidate (ex_candidate ''C''),
                RunUndo ex_tip, ChainRemove ex_tip,
                RunVerify (ex_candidate ''C'') ex_genesis,
                Published ''app:block:broadcast'' ''C'' None,
                RunApply (ex_candidate ''C'') ex_genesis]\<rparr>)"
    by code_simp
  have pvAT: "processValidated' (ex_p_faulty False) ex_tip ex_genesis
               (ex_processor_faulty False) False True False
              \<lparr>chainModule = \<lparr>lastBlock = ex_genesis, persisted = [ex_genesis]\<rparr>,
               trace = [Published ''app:chain:fork'' ''C'' None,
                RunValidate (ex_candidate ''C''),
                RunUndo ex_tip, ChainRemove ex_tip,
                RunVerify (ex_candidate ''C'') ex_genesis,
                Published ''app:block:broadcast'' ''C'' None,
                RunApply (ex_candidate ''C'') ex_genesis]\<rparr> =
             (Inl (Error ''Apply failed: T''),
      \<lparr>chainModule = \<lparr>lastBlock = ex_genesis, persisted = [ex_genesis]\<rparr>,
       trace = [Published ''app:chain:fork'' ''C'' None,
                RunValidate (ex_candidate ''C''),
                RunUndo ex_tip, ChainRemove ex_tip,
                RunVerify (ex_candidate ''C'') ex_genesis,
                Published ''app:block:broadcast'' ''C'' None,
                RunApply (ex_candidate ''C'') ex_genesis,
                RunVerify ex_tip ex_genesis,
                RunApply ex_tip ex_genesis]\<rparr>)"
    by code_simp
  show ?thesis
    using C2_tie_break_replaces_tip[OF ex_getBlockProcessor(1)[of TIE_BREAK "''X''"]
            ex_forkStatus[of TIE_BREAK _ ex_pstate] tip, of None]
          C2_tie_break_replaces_tip[OF ex_faulty_getBlockProcessor[of True "''C''"]
            ex_faulty_forkStatus[of True _ ex_pstate] tip, of None]
          C2_tie_break_replaces_tip[OF ex_getBlockProcessor(1)[of TIE_BREAK "''C''"]
            ex_forkStatus[of TIE_BREAK _ ex_pstate] tip, of None]
          C2_tie_break_replaces_tip[OF ex_getBlockProcessor(1)[of TIE_BREAK "''F''"]
            ex_forkStatus[of TIE_BREAK _ ex_pstate] tip, of None]
          C2_tie_break_replaces_tip[OF ex_faulty_getBlockProcessor[of False "''C''"]
            ex_faulty_forkStatus[of False _ ex_pstate] tip, of None]
    by (simp add: Let_def lb val x delU del delA pvC pvF pvT pvA pvAT)
qed

text \<open>
  Counterexamples to C2 as stated. The candidate \<open>X\<close> is classified \<open>TIE_BREAK\<close> but
  fails validation: \<open>process\<close> throws the validation error, the tip \<open>T\<close> is not reverted
  and the candidate is not applied. With the undo pipeline failing, the revert of \<open>T\<close>
  throws: \<open>T\<close> stays the tip and the candidate is not applied. With the apply pipeline
  failing for every block, applying the candidate \<open>C\<close> throws and so does re-applying
  \<open>T\<close>: the chain is not restored to \<open>T\<close> but left at the genesis block, and \<open>process\<close>
  throws the error of the re-application.
\<close>

theorem C2_counterexample:
  "forkStatus_run (ex_processor TIE_BREAK) (ex_candidate ''X'') (lastBlock (chainModule ex_pstate))
     = Inr TIE_BREAK
   \<and> process (ex_p TIE_BREAK) (ex_candidate ''X'') None ex_pstate =
     (Inl (Error ''Invalid block''),
      \<lparr>chainModule = \<lparr>lastBlock = ex_tip, persisted = [ex_tip, ex_genesis]\<rparr>,
       trace = [Published ''app:chain:fork'' ''X'' None, RunValidate (ex_candidate ''X'')]\<rparr>)
   \<and> forkStatus_run (ex_processor_faulty True) (ex_candidate ''C'')
       (lastBlock (chainModule ex_pstate)) = Inr TIE_BREAK
   \<and> process (ex_p_faulty True) (ex_candidate ''C'') None ex_pstate =
     (Inl (Error ''Undo failed''),
      \<lparr>chainModule = \<lparr>lastBlock = ex_tip, persisted = [ex_tip, ex_genesis]\<rparr>,
       trace = [Published ''app:chain:fork'' ''C'' None, RunValidate (ex_candidate ''C''),
                RunUndo ex_tip]\<rparr>)
   \<and> forkStatus_run (ex_processor_faulty False) (ex_candidate ''C'')
       (lastBlock (chainModule ex_pstate)) = Inr TIE_BREAK
   \<and> process (ex_p_faulty False) (ex_candidate ''C'') None ex_pstate =
     (Inl (Error ''Apply failed: T''),
      \<lparr>chainModule = \<lparr>lastBlock = ex_genesis, persisted = [ex_genesis]\<rparr>,
       trace = [Published ''app:chain:fork'' ''C'' None,
                RunValidate (ex_candidate ''C''),
                RunUndo ex_tip, ChainRemove ex_tip,
                RunVerify (ex_candidate ''C'') ex_genesis,
                Published ''app:block:broadcast'' ''C'' None,
                RunApply (ex_candidate ''C'') ex_genesis,
                RunVerify ex_tip ex_genesis,
                RunApply ex_tip ex_genesis]\<rparr>)"
  by code_simp

text \<open>
  C8. \<open>_processGenesis\<close>: when the genesis block exists in storage and no state-only
  re-application is asked for, the block is returned and nothing runs (neither
  \<open>applyGenesis\<close> nor \<open>save\<close>); when a state-only re-application is asked for and the
  block is not in storage, the operation throws; otherwise \<open>applyGenesis\<close> runs and
  then the block and state are saved (with the caller's \<open>saveOnlyState\<close>) and the block
  is returned, an error of either step being thrown on.
\<close>

theorem C8_processGenesis:
  "(chainExists (chainModule st) block \<and> \<not> saveOnlyState \<longrightarrow>
      processGenesis' p block processor saveOnlyState st = (Inr block, st))
   \<and> (saveOnlyState \<and> \<not> chainExists (chainModule st) block \<longrightarrow>
      processGenesis' p block processor saveOnlyState st =
        (Inl (Error ''Genesis block is not persisted but skipping to save''), st))
   \<and> (saveOnlyState = chainExists (chainModule st) block \<longrightarrow>
      processGenesis' p block processor saveOnlyState st =
        (case applyGenesis_run processor block (newStateStore (chainModule st) 0) of
           Some e \<Rightarrow> (Inl e, emit (RunApplyGenesis block) st)
         | None \<Rightarrow>
             (case chainSave (saveError p (chainModule st) block) block
                     (newStateStore (chainModule st) 0) saveOnlyState False (chainModule st) of
                Inl e \<Rightarrow>
                  (Inl e, emit (ChainSave block saveOnlyState) (emit (RunApplyGenesis block) st))
              | Inr chain' \<Rightarrow>
                  (Inr block,
                   emit (ChainSave block saveOnlyState) (emit (RunApplyGenesis block) st)
                     \<lparr>chainModule := chain'\<rparr>))))"
  by (auto simp: processGenesis'_def Let_def split: option.splits sum.splits)


text \<open>
  Witness of C8: the genesis block on a chain that holds it and on an empty chain, with
  and without \<open>saveOnlyState\<close>.
\<close>

theorem C8_processGenesis_witness:
  "processGenesis' (ex_p VALID_BLOCK) ex_genesis (ex_processor VALID_BLOCK) False ex_pstate =
     (Inr ex_genesis, ex_pstate)
   \<and> processGenesis' (ex_p VALID_BLOCK) ex_genesis (ex_processor VALID_BLOCK) True
         ex_pstate_empty =
       (Inl (Error ''Genesis block is not persisted but skipping to save''), ex_pstate_empty)
   \<and> processGenesis' (ex_p VALID_BLOCK) ex_genesis (ex_processor VALID_BLOCK) False
         ex_pstate_empty =
       (Inr ex_genesis,
        \<lparr>chainModule = \<lparr>lastBlock = ex_genesis, persisted = [ex_genesis]\<rparr>,
         trace = [RunApplyGenesis ex_genesis, ChainSave ex_genesis False]\<rparr>)
   \<and> processGenesis' (ex_p VALID_BLOCK) ex_genesis (ex_processor VALID_BLOCK) True ex_pstate =
       (Inr ex_genesis,
        \<lparr>chainModule = \<lparr>lastBlock = ex_genesis, persisted = [ex_tip, ex_genesis]\<rparr>,
         trace = [RunApplyGenesis ex_genesis, ChainSave ex_genesis True]\<rparr>)"
proof -
  have ex: "chainExists (chainModule ex_pstate) ex_genesis"
           "\<not> chainExists (chainModule ex_pstate_empty) ex_genesis"
    by code_simp+
  have ag: "applyGenesis_run (ex_processor VALID_BLOCK) ex_genesis s = None" for s
    by (simp add: ex_processor_def)
  have sv: "saveError (ex_p VALID_BLOCK) c b = None" for c b
    by (simp add: ex_p_def)
  show ?thesis
    using C8_processGenesis[of ex_pstate ex_genesis False "ex_p VALID_BLOCK" "ex_processor VALID_BLOCK"]
          C8_processGenesis[of ex_pstate_empty ex_genesis True "ex_p VALID_BLOCK" "ex_processor VALID_BLOCK"]
          C8_processGenesis[of ex_pstate_empty ex_genesis False "ex_p VALID_BLOCK" "ex_processor VALID_BLOCK"]
          C8_processGenesis[of ex_pstate ex_genesis True "ex_p VALID_BLOCK" "ex_processor VALID_BLOCK"]
    by (simp add: ex ag sv chainSave_def)
       (simp add: emit_def ex_pstate_def ex_pstate_empty_def)
qed

text \<open>
  C9. When the fork status that \<open>forkStatus.run\<close> computes is none of the six known
  statuses, \<open>process\<close> throws \<open>Unknown fork status\<close> and leaves the state as it was:
  the block is not applied, the tip is unchanged and nothing is published.
\<close>

theorem C9_unknown_fork_status:
  assumes "getBlockProcessor' p block = Inr bp"
      and "forkStatus_run bp block (lastBlock (chainModule st)) = Inr fs"
      and "fs \<notin> set forkStatusList"
  shows "process p block peerId st = (Inl (Error ''Unknown fork status''), st)"
  using assms by (simp add: process_def)

text \<open>Witness of C9: the example processor answering the unknown status 9.\<close>

theorem C9_unknown_fork_status_witness:
  "process (ex_p (UNKNOWN_STATUS 9)) (ex_candidate ''C'') None ex_pstate =
     (Inl (Error ''Unknown fork status''), ex_pstate)"
proof -
  have gp: "getBlockProcessor' (ex_p (UNKNOWN_STATUS 9)) (ex_candidate ''C'') =
              Inr (ex_processor (UNKNOWN_STATUS 9))"
    by (rule ex_getBlockProcessor)
  have fs: "forkStatus_run (ex_processor (UNKNOWN_STATUS 9)) (ex_candidate ''C'')
              (lastBlock (chainModule ex_pstate)) = Inr (UNKNOWN_STATUS 9)"
    by (rule ex_forkStatus)
  have unknown: "UNKNOWN_STATUS 9 \<notin> set forkStatusList"
    by (simp add: forkStatusList_def)
  show ?thesis
    by (rule C9_unknown_fork_status[OF gp fs unknown])
qed

subsection \<open>Interoperability claims\<close>

lemma terminateChainInternal_status:
  assumes "store_get (chainAccountStore st) chainID = Inr chainAccount"
  shows "fst (terminateChainInternal chainID st) = Inr ()"
    and "store_get (chainAccountStore (snd (terminateChainInternal chainID st))) chainID =
           Inr (chainAccount\<lparr>ca_status := TERMINATED\<rparr>)"
    and "terminatedStateStore (snd (terminateChainInternal chainID st)) = terminatedStateStore st"
  using assms
  by (simp_all add: terminateChainInternal_def store_get_def getWithSchema_def map_of_setWithSchema
               split: option.splits)

lemma isLive_iff:
  "isLive livenessLimit now chainAccount \<longleftrightarrow>
     now \<le> lc_timestamp (ca_lastCertificate chainAccount) + livenessLimit"
  by (auto simp: isLive_def)

text \<open>
  The three outcomes of \<open>SidechainCCSidechainTerminatedCommand.execute\<close> for a message
  whose parameters decode: from the mainchain with a terminated-state entry it is a
  no-op; from any other chain it is \<open>terminateChainInternal\<close> of the sending chain,
  which leaves the terminated-state store alone; from the mainchain without a
  terminated-state entry the store's \<open>get\<close> throws \<open>NotFoundError\<close> and nothing is
  created.
\<close>

lemma sidechain_terminated_other_branches:
  assumes "decode (ccm_params ccm) = Inr ps"
  shows "(ccm_sendingChainID ccm = mainchainID \<and>
          store_has (terminatedStateStore st) (p_chainID ps) \<longrightarrow>
            SidechainCCSidechainTerminatedCommand_execute mainchainID decode (Some ccm) st =
              (Inr (), st))
     \<and> (ccm_sendingChainID ccm \<noteq> mainchainID \<longrightarrow>
            SidechainCCSidechainTerminatedCommand_execute mainchainID decode (Some ccm) st =
              terminateChainInternal (ccm_sendingChainID ccm) st
            \<and> terminatedStateStore
                 (snd (SidechainCCSidechainTerminatedCommand_execute mainchainID decode
                        (Some ccm) st)) = terminatedStateStore st)
     \<and> (ccm_sendingChainID ccm = mainchainID \<and>
          \<not> store_has (terminatedStateStore st) (p_chainID ps) \<longrightarrow>
            SidechainCCSidechainTerminatedCommand_execute mainchainID decode (Some ccm) st =
              (Inl NotFoundError, st))"
  using assms
  by (auto simp: SidechainCCSidechainTerminatedCommand_execute_def store_get_def store_has_def
                 has_def getWithSchema_def truthy_def terminateChainInternal_def
           split: option.splits sum.splits)


text \<open>
  C6, at the input where the code departs from it: a sidechain-terminated message from
  the mainchain for chain \<open>00000003\<close>, which has no terminated-state entry. \<open>execute\<close>
  throws \<open>NotFoundError\<close> and leaves the state as it was, where the claim has a
  TerminatedStateAccount with the parameters' state root created.
\<close>

theorem C6_sidechain_terminated_missing_entry:
  "ccm_sendingChainID (ex_ccm ex_mainchainID) = ex_mainchainID
   \<and> ex_decode (ccm_params (ex_ccm ex_mainchainID)) =
       Inr \<lparr>p_chainID = ex_chainID, p_stateRoot = [5, 5]\<rparr>
   \<and> store_has (terminatedStateStore ex_interop) ex_chainID = False
   \<and> SidechainCCSidechainTerminatedCommand_execute ex_mainchainID ex_decode
         (Some (ex_ccm ex_mainchainID)) ex_interop =
       (Inl NotFoundError, ex_interop)"
  by code_simp

text \<open>
  C7. For the liveness-termination command: \<open>verify\<close> rejects when the chain account
  does not exist, rejects when the chain's status is already \<open>TERMINATED\<close>, rejects
  when the chain is still live, and returns \<open>OK\<close> otherwise; \<open>execute\<close> is the internal
  terminate-chain routine for the target chain, whatever the state, and once \<open>verify\<close>
  has passed it succeeds and leaves the chain's status \<open>TERMINATED\<close>.
\<close>

theorem C7_liveness_termination:
  "(store_get (chainAccountStore st) chainID = Inl e \<longrightarrow>
      TerminateSidechainForLivenessCommand_verify livenessLimit now chainID st =
        Inl (Error ''Chain account does not exist''))
   \<and> (store_get (chainAccountStore st) chainID = Inr chainAccount \<and>
        ca_status chainAccount = TERMINATED \<longrightarrow>
      TerminateSidechainForLivenessCommand_verify livenessLimit now chainID st =
        Inl (Error ''Sidechain is already terminated''))
   \<and> (store_get (chainAccountStore st) chainID = Inr chainAccount \<and>
        ca_status chainAccount \<noteq> TERMINATED \<and> isLive livenessLimit now chainAccount \<longrightarrow>
      TerminateSidechainForLivenessCommand_verify livenessLimit now chainID st =
        Inl (Error ''Sidechain did not violate the liveness condition''))
   \<and> (store_get (chainAccountStore st) chainID = Inr chainAccount \<and>
        ca_status chainAccount \<noteq> TERMINATED \<and> \<not> isLive livenessLimit now chainAccount \<longrightarrow>
      TerminateSidechainForLivenessCommand_verify livenessLimit now chainID st = Inr OK)
   \<and> TerminateSidechainForLivenessCommand_execute chainID st =
        terminateChainInternal chainID st
   \<and> (TerminateSidechainForLivenessCommand_verify livenessLimit now chainID st = Inr OK \<longrightarrow>
        fst (TerminateSidechainForLivenessCommand_execute chainID st) = Inr () \<and>
        (\<exists>terminated.
           store_get
             (chainAccountStore (snd (TerminateSidechainForLivenessCommand_execute chainID st)))
             chainID = Inr terminated
           \<and> ca_status terminated = TERMINATED))"
proof -
  have ok: "TerminateSidechainForLivenessCommand_verify livenessLimit now chainID st = Inr OK \<Longrightarrow>
        \<exists>acct. store_get (chainAccountStore st) chainID = Inr acct"
    by (auto simp: TerminateSidechainForLivenessCommand_verify_def split: sum.splits if_splits)
  show ?thesis
    using terminateChainInternal_status[of st chainID]
    by (auto simp: TerminateSidechainForLivenessCommand_verify_def
                   TerminateSidechainForLivenessCommand_execute_def
             dest!: ok split: sum.splits)
qed

text \<open>
  Witness of C7: a chain without account, a terminated chain, a chain certified 10
  seconds ago (limit 100) and the same chain 4000 seconds later, which is terminated.
\<close>

theorem C7_liveness_termination_witness:
  "TerminateSidechainForLivenessCommand_verify 100 5000 [0, 0, 0, 4] ex_interop =
     Inl (Error ''Chain account does not exist'')
   \<and> TerminateSidechainForLivenessCommand_verify 100 5000 ex_chainID ex_interop_terminated =
     Inl (Error ''Sidechain is already terminated'')
   \<and> TerminateSidechainForLivenessCommand_verify 100 1010 ex_chainID ex_interop =
     Inl (Error ''Sidechain did not violate the liveness condition'')
   \<and> TerminateSidechainForLivenessCommand_verify 100 5000 ex_chainID ex_interop = Inr OK
   \<and> fst (TerminateSidechainForLivenessCommand_execute ex_chainID ex_interop) = Inr ()
   \<and> (\<exists>terminated.
         store_get
           (chainAccountStore (snd (TerminateSidechainForLivenessCommand_execute ex_chainID ex_interop)))
           ex_chainID = Inr terminated
         \<and> ca_status terminated = TERMINATED)"
proof -
  have g: "store_get (chainAccountStore ex_interop) [0, 0, 0, 4] = Inl NotFoundError"
          "store_get (chainAccountStore ex_interop_terminated) ex_chainID =
             Inr (ex_chainAccount TERMINATED)"
          "store_get (chainAccountStore ex_interop) ex_chainID = Inr (ex_chainAccount ACTIVE)"
    by code_simp+
  have s: "ca_status (ex_chainAccount TERMINATED) = TERMINATED"
          "ca_status (ex_chainAccount ACTIVE) \<noteq> TERMINATED"
    by (simp_all add: ex_chainAccount_def)
  have l: "isLive 100 1010 (ex_chainAccount ACTIVE)" "\<not> isLive 100 5000 (ex_chainAccount ACTIVE)"
    by code_simp+
  have a: "TerminateSidechainForLivenessCommand_verify 100 5000 [0, 0, 0, 4] ex_interop =
             Inl (Error ''Chain account does not exist'')"
    using C7_liveness_termination[of ex_interop "[0, 0, 0, 4]" NotFoundError 100 5000] g(1)
    by blast
  have b: "TerminateSidechainForLivenessCommand_verify 100 5000 ex_chainID ex_interop_terminated =
             Inl (Error ''Sidechain is already terminated'')"
    using C7_liveness_termination[of ex_interop_terminated ex_chainID _ 100 5000
             "ex_chainAccount TERMINATED"] g(2) s(1)
    by blast
  have c: "TerminateSidechainForLivenessCommand_verify 100 1010 ex_chainID ex_interop =
             Inl (Error ''Sidechain did not violate the liveness condition'')"
    using C7_liveness_termination[of ex_interop ex_chainID _ 100 1010 "ex_chainAccount ACTIVE"]
          g(3) s(2) l(1)
    by blast
  have d: "TerminateSidechainForLivenessCommand_verify 100 5000 ex_chainID ex_interop = Inr OK"
    using C7_liveness_termination[of ex_interop ex_chainID _ 100 5000 "ex_chainAccount ACTIVE"]
          g(3) s(2) l(2)
    by blast
  have e: "fst (TerminateSidechainForLivenessCommand_execute ex_chainID ex_interop) = Inr () \<and>
     (\<exists>terminated.
         store_get
           (chainAccountStore (snd (TerminateSidechainForLivenessCommand_execute ex_chainID ex_interop)))
           ex_chainID = Inr terminated
         \<and> ca_status terminated = TERMINATED)"
    using C7_liveness_termination[of ex_interop ex_chainID _ 100 5000 "ex_chainAccount ACTIVE"] d
    by blast
  show ?thesis
    using a b c d e by blast
qed

subsection \<open>Certificate claims\<close>

text \<open>
  C10. \<open>verifySingleCertificateSignature\<close> returns true for every public key, signature,
  network identifier and certificate: it looks at none of its arguments, so the
  single-signature check accepts any signature whatsoever.
\<close>

theorem C10_verifySingleCertificateSignature_always_true:
  "verifySingleCertificateSignature pk sig networkIdentifier certificate = True"
  by (simp add: verifySingleCertificateSignature_def)

end
